theory Spec2Isabelle
  imports
    Complex_Main
    "HOL-Library.Sublist"
    "HOL-Library.Product_Lexorder"
    "HOL-Library.List_Lexorder"
    "HOL-Library.Multiset"
begin

section \<open>Text, JSON values and HTTP results\<close>

text \<open>
  A Python \<open>str\<close> is a sequence of Unicode code points, and SQLite compares and matches
  TEXT code point by code point (its default BINARY collation is the byte order of UTF-8,
  which is the order of the code points). Text is therefore a list of code points; the
  lexicographic order on lists is the order \<open>ORDER BY\<close> uses. \<open>lit\<close> reads an ASCII
  literal.
\<close>

type_synonym ustr = "nat list"

definition lit :: "string \<Rightarrow> ustr" where
  "lit s = map of_char s"

text \<open>
  The values \<open>request.get_json()\<close> and \<open>json.loads\<close> produce. A JSON number without a
  fraction is a Python \<open>int\<close>, any other a \<open>float\<close>; only its truth value is ever used here.
\<close>

datatype json =
    JNull
  | JBool bool
  | JInt int
  | JFloat real
  | JStr ustr
  | JArr "json list"
  | JObj "(ustr \<times> json) list"

text \<open>Python's truth value of a parsed JSON value (\<open>not v\<close> is its negation).\<close>

fun truthy :: "json \<Rightarrow> bool" where
  "truthy JNull = False"
| "truthy (JBool b) = b"
| "truthy (JInt i) = (i \<noteq> 0)"
| "truthy (JFloat r) = (r \<noteq> 0)"
| "truthy (JStr s) = (s \<noteq> [])"
| "truthy (JArr xs) = (xs \<noteq> [])"
| "truthy (JObj kvs) = (kvs \<noteq> [])"

text \<open>
  A handler returns either \<open>jsonify({'error': message}), status\<close> or a success payload.
\<close>

datatype failure = Failure (status: nat) (message: ustr)

section \<open>The four tables\<close>

text \<open>
  One record per table of \<open>init_database\<close>. A nullable column is an \<open>option\<close>, except
  \<open>popularity\<close>, \<open>is_required\<close>, \<open>order_index\<close>, \<open>status\<close> and \<open>created_at\<close>, which
  have a DEFAULT and never receive NULL from this program. A table is the list of its rows
  in rowid order, which is the order of a scan without \<open>ORDER BY\<close>; its \<open>id\<close> is its
  primary key, and a lookup by id takes the first row with that id.
\<close>

record category =
  cat_id :: int
  cat_name :: ustr
  cat_description :: "ustr option"
  cat_created_at :: ustr

record template =
  tpl_id :: int
  tpl_category_id :: "int option"
  tpl_name :: ustr
  tpl_description :: "ustr option"
  tpl_doc_type :: "ustr option"
  tpl_word_count :: "int option"
  tpl_popularity :: int
  tpl_created_at :: ustr

record template_field =
  fld_id :: int
  fld_template_id :: int
  fld_field_key :: ustr
  fld_field_label :: ustr
  fld_field_type :: ustr
  fld_is_required :: int
  fld_min_value :: "int option"
  fld_max_value :: "int option"
  fld_format :: "ustr option"
  fld_placeholder :: "ustr option"
  fld_options :: "ustr option"
  fld_order_index :: int

record filled_document =
  doc_id :: int
  doc_template_id :: int
  doc_user_id :: "int option"
  doc_document_data :: ustr
  doc_created_at :: ustr
  doc_status :: ustr

text \<open>
  The database file: the four tables and, for each, the largest rowid ever handed out
  (\<open>sqlite_sequence\<close>, which \<open>AUTOINCREMENT\<close> keeps and \<open>DELETE\<close> does not reset).
\<close>

record db =
  categories :: "category list"
  templates :: "template list"
  template_fields :: "template_field list"
  filled_documents :: "filled_document list"
  seq_categories :: int
  seq_templates :: int
  seq_template_fields :: int
  seq_filled_documents :: int

section \<open>Constants of the source\<close>

definition msg_not_found :: ustr where
  "msg_not_found = [1064, 1072, 1073, 1083, 1086, 1085, 32, 1085, 1077, 32, 1085, 1072, 1081, 1076, 1077, 1085]"

definition msg_need_body :: ustr where
  "msg_need_body = [1053, 1077, 1086, 1073, 1093, 1086, 1076, 1080, 1084, 1099, 32, 116, 101, 109, 112, 108, 97,
    116, 101, 95, 105, 100, 32, 1080, 32, 102, 105, 101, 108, 100, 115]"

definition msg_required_prefix :: ustr where
  "msg_required_prefix = [1054, 1073, 1103, 1079, 1072, 1090, 1077, 1083, 1100, 1085, 1086, 1077, 32, 1087, 1086, 1083,
    1077, 32, 34]"

definition msg_required_suffix :: ustr where
  "msg_required_suffix = [34, 32, 1085, 1077, 32, 1079, 1072, 1087, 1086, 1083, 1085, 1077, 1085, 1086]"

definition msg_created :: ustr where
  "msg_created = [1044, 1086, 1082, 1091, 1084, 1077, 1085, 1090, 32, 1091, 1089, 1087, 1077, 1096, 1085, 1086,
    32, 1089, 1086, 1079, 1076, 1072, 1085]"

definition status_generated :: ustr where
  "status_generated = lit ''generated''"

definition doc_types :: "ustr list" where
  "doc_types =
    [[1044, 1086, 1075, 1086, 1074, 1086, 1088],
     [1047, 1072, 1103, 1074, 1083, 1077, 1085, 1080, 1077],
     [1048, 1089, 1082, 1086, 1074, 1086, 1077, 32, 1079, 1072, 1103, 1074, 1083, 1077, 1085, 1080,
     1077],
     [1057, 1086, 1075, 1083, 1072, 1096, 1077, 1085, 1080, 1077],
     [1056, 1072, 1089, 1090, 1086, 1088, 1078, 1077, 1085, 1080, 1077],
     [1040, 1082, 1090],
     [1044, 1086, 1074, 1077, 1088, 1077, 1085, 1085, 1086, 1089, 1090, 1100],
     [1055, 1088, 1080, 1082, 1072, 1079],
     [1055, 1088, 1086, 1095, 1077, 1077]]"

definition field_types :: "ustr list" where
  "field_types =
    [lit ''text'', lit ''number'', lit ''date'', lit ''email'', lit ''phone'', lit ''select'', lit
     ''textarea'', lit ''boolean'']"

section \<open>Queries shared by the handlers\<close>

text \<open>\<open>SELECT ... FROM templates WHERE id = ?\<close> followed by \<open>fetchone()\<close>.\<close>

definition template_by_id :: "db \<Rightarrow> int \<Rightarrow> template option" where
  "template_by_id d tid = find (\<lambda>t. tpl_id t = tid) (templates d)"

text \<open>
  The column \<open>c.name\<close> of \<open>LEFT JOIN categories c ON t.category_id = c.id\<close>: NULL when the
  template has no category or no category row has that id.
\<close>

definition category_name :: "db \<Rightarrow> template \<Rightarrow> ustr option" where
  "category_name d t =
     (case tpl_category_id t of
        None \<Rightarrow> None
      | Some cid \<Rightarrow> map_option cat_name (find (\<lambda>c. cat_id c = cid) (categories d)))"

section \<open>Template detail\<close>

record template_detail =
  td_id :: int
  td_name :: ustr
  td_description :: "ustr option"
  td_type :: "ustr option"
  td_category :: "ustr option"
  td_category_id :: "int option"
  td_word_count :: "int option"
  td_popularity :: int
  td_created_at :: ustr

text \<open>\<open>UPDATE templates SET popularity = popularity + 1 WHERE id = ?\<close>\<close>

definition bump_popularity :: "int \<Rightarrow> db \<Rightarrow> db" where
  "bump_popularity tid d =
     d\<lparr>templates :=
         map (\<lambda>t. if tpl_id t = tid then t\<lparr>tpl_popularity := tpl_popularity t + 1\<rparr> else t)
           (templates d)\<rparr>"

text \<open>
  \<open>get_template_detail\<close>: the row is selected first, the counter is updated next, and the
  response is built from the row that was selected.
\<close>

definition get_template_detail :: "db \<Rightarrow> int \<Rightarrow> (failure + template_detail) \<times> db" where
  "get_template_detail d template_id =
     (case template_by_id d template_id of
        None \<Rightarrow> (Inl (Failure 404 msg_not_found), d)
      | Some t \<Rightarrow>
          (Inr \<lparr>td_id = tpl_id t, td_name = tpl_name t, td_description = tpl_description t,
                td_type = tpl_doc_type t, td_category = category_name d t,
                td_category_id = tpl_category_id t, td_word_count = tpl_word_count t,
                td_popularity = tpl_popularity t, td_created_at = tpl_created_at t\<rparr>,
           bump_popularity template_id d))"

text \<open>The database after \<open>n\<close> sequential detail requests for the same id.\<close>

fun after_details :: "nat \<Rightarrow> int \<Rightarrow> db \<Rightarrow> db" where
  "after_details 0 tid d = d"
| "after_details (Suc n) tid d = after_details n tid (snd (get_template_detail d tid))"

section \<open>Template listing\<close>

text \<open>
  SQLite's \<open>LIKE\<close> without \<open>ESCAPE\<close>: \<open>%\<close> (37) matches any run of characters, \<open>_\<close> (95)
  matches exactly one, and any other character matches itself, where only the ASCII
  letters are compared without regard to case.
\<close>

definition ascii_lower :: "nat \<Rightarrow> nat" where
  "ascii_lower c = (if 65 \<le> c \<and> c \<le> 90 then c + 32 else c)"

fun like :: "ustr \<Rightarrow> ustr \<Rightarrow> bool" where
  "like [] s = (s = [])"
| "like (x # p) [] = (x = 37 \<and> like p [])"
| "like (x # p) (c # cs) =
     (if x = 37 then like p (c # cs) \<or> like (x # p) cs
      else if x = 95 then like p cs
      else ascii_lower x = ascii_lower c \<and> like p cs)"

text \<open>The pattern \<open>f'%{search}%'\<close>.\<close>

definition search_pattern :: "ustr \<Rightarrow> ustr" where
  "search_pattern search = [37] @ search @ [37]"

text \<open>
  The WHERE clause that \<open>get_all_templates\<close> assembles. \<open>category_id\<close> is
  \<open>request.args.get('category_id', type=int)\<close>, \<open>doc_type\<close> is \<open>request.args.get('doc_type')\<close>
  and \<open>search\<close> is \<open>request.args.get('search', '')\<close>; each condition is added only when its
  argument is truthy. A comparison with NULL is not true.
\<close>

definition category_cond :: "int option \<Rightarrow> template \<Rightarrow> bool" where
  "category_cond category_id t =
     (case category_id of
        None \<Rightarrow> True
      | Some c \<Rightarrow> if c \<noteq> 0 then tpl_category_id t = Some c else True)"

definition doc_type_cond :: "ustr option \<Rightarrow> template \<Rightarrow> bool" where
  "doc_type_cond doc_type t =
     (case doc_type of
        None \<Rightarrow> True
      | Some dt \<Rightarrow> if dt \<noteq> [] then tpl_doc_type t = Some dt else True)"

definition search_cond :: "ustr \<Rightarrow> template \<Rightarrow> bool" where
  "search_cond search t =
     (if search \<noteq> [] then
        like (search_pattern search) (tpl_name t) \<or>
        (case tpl_description t of None \<Rightarrow> False | Some desc \<Rightarrow> like (search_pattern search) desc)
      else True)"

record template_summary =
  ts_id :: int
  ts_name :: ustr
  ts_description :: "ustr option"
  ts_type :: "ustr option"
  ts_category :: "ustr option"
  ts_word_count :: "int option"
  ts_popularity :: int

definition summary :: "db \<Rightarrow> template \<Rightarrow> template_summary" where
  "summary d t =
     \<lparr>ts_id = tpl_id t, ts_name = tpl_name t, ts_description = tpl_description t,
      ts_type = tpl_doc_type t, ts_category = category_name d t,
      ts_word_count = tpl_word_count t, ts_popularity = tpl_popularity t\<rparr>"

text \<open>
  \<open>ORDER BY t.popularity DESC, t.name\<close> is the ascending order of the pair
  (negated popularity, name); rows equal in both keep their rowid order.
\<close>

definition listing_key :: "template \<Rightarrow> int \<times> ustr" where
  "listing_key t = (- tpl_popularity t, tpl_name t)"

definition selected_templates :: "db \<Rightarrow> int option \<Rightarrow> ustr option \<Rightarrow> ustr \<Rightarrow> template list" where
  "selected_templates d category_id doc_type search =
     sort_key listing_key
       (filter (\<lambda>t. category_cond category_id t \<and> doc_type_cond doc_type t \<and> search_cond search t)
          (templates d))"

definition get_all_templates ::
  "db \<Rightarrow> int option \<Rightarrow> ustr option \<Rightarrow> ustr \<Rightarrow> template_summary list" where
  "get_all_templates d category_id doc_type search =
     map (summary d) (selected_templates d category_id doc_type search)"

section \<open>Category listing\<close>

record category_row =
  cr_id :: int
  cr_name :: ustr
  cr_description :: "ustr option"
  cr_template_count :: int

text \<open>\<open>(SELECT COUNT(*) FROM templates WHERE category_id = categories.id)\<close>\<close>

definition template_count :: "db \<Rightarrow> category \<Rightarrow> int" where
  "template_count d c =
     int (length (filter (\<lambda>t. tpl_category_id t = Some (cat_id c)) (templates d)))"

text \<open>
  \<open>get_categories\<close>: the rows \<open>ORDER BY name\<close>, one entry of \<open>categories_list\<close> for each
  (the response's \<open>count\<close> is the length of that list).
\<close>

definition get_categories :: "db \<Rightarrow> category_row list" where
  "get_categories d =
     map (\<lambda>cat. \<lparr>cr_id = cat_id cat, cr_name = cat_name cat,
                  cr_description = cat_description cat,
                  cr_template_count = template_count d cat\<rparr>)
       (sort_key cat_name (categories d))"

section \<open>Template fields\<close>

text \<open>
  One entry of \<open>response['fields']\<close>. The keys \<open>min\<close>, \<open>max\<close>, \<open>format\<close> and \<open>options\<close> exist
  only under their conditions, so they are options here.
\<close>

record field_data =
  fd_key :: ustr
  fd_label :: ustr
  fd_type :: ustr
  fd_required :: bool
  fd_placeholder :: ustr
  fd_min :: "int option"
  fd_max :: "int option"
  fd_format :: "ustr option"
  fd_options :: "json option"

text \<open>
  \<open>json.loads\<close> is a parameter: \<open>loads s = None\<close> when it raises, which the bare
  \<open>except\<close> turns into the empty list.
\<close>

definition field_entry :: "(ustr \<Rightarrow> json option) \<Rightarrow> template_field \<Rightarrow> field_data" where
  "field_entry loads field =
     \<lparr>fd_key = fld_field_key field,
      fd_label = fld_field_label field,
      fd_type = fld_field_type field,
      fd_required = (fld_is_required field \<noteq> 0),
      fd_placeholder = (case fld_placeholder field of None \<Rightarrow> [] | Some p \<Rightarrow> p),
      fd_min = fld_min_value field,
      fd_max = fld_max_value field,
      fd_format =
        (case fld_format field of
           None \<Rightarrow> None
         | Some f \<Rightarrow> if f \<noteq> [] then Some f else None),
      fd_options =
        (case fld_options field of
           None \<Rightarrow> None
         | Some s \<Rightarrow>
             if s \<noteq> [] then Some (case loads s of Some v \<Rightarrow> v | None \<Rightarrow> JArr [])
             else None)\<rparr>"

text \<open>\<open>ORDER BY order_index, id\<close>\<close>

definition field_order :: "template_field \<Rightarrow> int \<times> int" where
  "field_order f = (fld_order_index f, fld_id f)"

text \<open>\<open>SELECT ... FROM template_fields WHERE template_id = ?\<close>, in rowid order.\<close>

definition fields_of :: "db \<Rightarrow> int \<Rightarrow> template_field list" where
  "fields_of d tid = filter (\<lambda>f. fld_template_id f = tid) (template_fields d)"

record fields_response =
  fr_template_id :: int
  fr_template_name :: ustr
  fr_fields :: "field_data list"

definition get_template_fields ::
  "(ustr \<Rightarrow> json option) \<Rightarrow> db \<Rightarrow> int \<Rightarrow> failure + fields_response" where
  "get_template_fields loads d template_id =
     (case template_by_id d template_id of
        None \<Rightarrow> Inl (Failure 404 msg_not_found)
      | Some t \<Rightarrow>
          Inr \<lparr>fr_template_id = template_id,
               fr_template_name = tpl_name t,
               fr_fields = map (field_entry loads) (sort_key field_order (fields_of d template_id))\<rparr>)"

section \<open>Document generation\<close>

text \<open>
  The body of the POST, read as a JSON object whose \<open>template_id\<close> is an integer and whose
  \<open>fields\<close> is an object, given by its items (a Python dict, so its keys are distinct);
  \<open>None\<close> stands for a key that the body does not have.
\<close>

record gen_request =
  gr_template_id :: "int option"
  gr_fields :: "(ustr \<times> json) list option"

record gen_response =
  ge_document_id :: int
  ge_message :: ustr
  ge_template_name :: ustr
  ge_generated_at :: ustr

text \<open>\<open>[field['field_key'] for field in template_fields if field['is_required']]\<close>\<close>

definition required_fields :: "db \<Rightarrow> int \<Rightarrow> ustr list" where
  "required_fields d tid =
     map fld_field_key (filter (\<lambda>f. fld_is_required f \<noteq> 0) (fields_of d tid))"

text \<open>\<open>req_field not in fields_data or not fields_data[req_field]\<close>\<close>

definition not_filled :: "(ustr \<times> json) list \<Rightarrow> ustr \<Rightarrow> bool" where
  "not_filled fields_data req_field =
     (case map_of fields_data req_field of None \<Rightarrow> True | Some v \<Rightarrow> \<not> truthy v)"

text \<open>
  \<open>generate_document\<close>. \<open>json.dumps\<close> is the parameter \<open>dumps\<close>; \<open>now_db\<close> is the
  \<open>CURRENT_TIMESTAMP\<close> of the INSERT and \<open>now_py\<close> is \<open>datetime.now().isoformat()\<close>. The new
  rowid is one more than the largest the table ever had.
\<close>

definition generate_document ::
  "(json \<Rightarrow> ustr) \<Rightarrow> ustr \<Rightarrow> ustr \<Rightarrow> db \<Rightarrow> gen_request \<Rightarrow> (failure + gen_response) \<times> db" where
  "generate_document dumps now_db now_py d data =
     (case gr_template_id data of
        None \<Rightarrow> (Inl (Failure 400 msg_need_body), d)
      | Some template_id \<Rightarrow>
     (case gr_fields data of
        None \<Rightarrow> (Inl (Failure 400 msg_need_body), d)
      | Some fields_data \<Rightarrow>
     (case template_by_id d template_id of
        None \<Rightarrow> (Inl (Failure 404 msg_not_found), d)
      | Some t \<Rightarrow>
     (case find (not_filled fields_data) (required_fields d template_id) of
        Some req_field \<Rightarrow>
          (Inl (Failure 400 (msg_required_prefix @ req_field @ msg_required_suffix)), d)
      | None \<Rightarrow>
          (let document_id = seq_filled_documents d + 1
           in (Inr \<lparr>ge_document_id = document_id, ge_message = msg_created,
                     ge_template_name = tpl_name t, ge_generated_at = now_py\<rparr>,
               d\<lparr>filled_documents := filled_documents d @
                     [\<lparr>doc_id = document_id, doc_template_id = template_id,
                       doc_user_id = None, doc_document_data = dumps (JObj fields_data),
                       doc_created_at = now_db, doc_status = status_generated\<rparr>],
                  seq_filled_documents := document_id\<rparr>))))))"

section \<open>Document listing\<close>




section \<open>Seeding\<close>

text \<open>The dicts of \<open>templates_data\<close>; a key that a dict may lack is an option.\<close>

record seed_field =
  sf_key :: ustr
  sf_label :: ustr
  sf_type :: ustr
  sf_required :: "bool option"
  sf_placeholder :: "ustr option"
  sf_min :: "int option"
  sf_max :: "int option"
  sf_options :: "ustr list option"

record seed_template =
  sd_name :: ustr
  sd_category :: ustr
  sd_type :: ustr
  sd_word_count :: int
  sd_description :: "ustr option"
  sd_fields :: "seed_field list"

text \<open>
  \<open>INSERT INTO categories (name, description)\<close> in a loop that fills \<open>category_ids\<close>.
  \<open>now\<close> is \<open>CURRENT_TIMESTAMP\<close>, read once for the request.
\<close>

fun insert_categories ::
  "ustr \<Rightarrow> (ustr \<times> ustr) list \<Rightarrow> (ustr \<rightharpoonup> int) \<Rightarrow> db \<Rightarrow> (ustr \<rightharpoonup> int) \<times> db" where
  "insert_categories now [] category_ids d = (category_ids, d)"
| "insert_categories now ((name, desc) # rest) category_ids d =
     (let lastrowid = seq_categories d + 1
      in insert_categories now rest (category_ids(name \<mapsto> lastrowid))
           (d\<lparr>categories := categories d @
                 [\<lparr>cat_id = lastrowid, cat_name = name, cat_description = Some desc,
                   cat_created_at = now\<rparr>],
              seq_categories := lastrowid\<rparr>))"

text \<open>
  \<open>INSERT INTO templates\<close>: \<open>None\<close> when building or running the statement raises, which is
  a \<open>KeyError\<close> of \<open>category_ids[template['category']]\<close> or the CHECK on \<open>doc_type\<close>.
\<close>

definition insert_template ::
  "ustr \<Rightarrow> (ustr \<rightharpoonup> int) \<Rightarrow> seed_template \<Rightarrow> db \<Rightarrow> (int \<times> db) option" where
  "insert_template now category_ids t d =
     (case category_ids (sd_category t) of
        None \<Rightarrow> None
      | Some cid \<Rightarrow>
          if sd_type t \<in> set doc_types then
            (let lastrowid = seq_templates d + 1
             in Some (lastrowid,
                  d\<lparr>templates := templates d @
                       [\<lparr>tpl_id = lastrowid, tpl_category_id = Some cid, tpl_name = sd_name t,
                         tpl_description =
                           Some (case sd_description t of None \<Rightarrow> [] | Some s \<Rightarrow> s),
                         tpl_doc_type = Some (sd_type t),
                         tpl_word_count = Some (sd_word_count t),
                         tpl_popularity = 0, tpl_created_at = now\<rparr>],
                     seq_templates := lastrowid\<rparr>))
          else None)"

text \<open>
  The inner loop \<open>for i, field in enumerate(template['fields'])\<close>. The CHECK on
  \<open>field_type\<close> is the one way an INSERT here raises; the exception leaves the loop, and the
  rows inserted before it stay.
\<close>

fun insert_fields :: "(json \<Rightarrow> ustr) \<Rightarrow> int \<Rightarrow> int \<Rightarrow> seed_field list \<Rightarrow> db \<Rightarrow> db" where
  "insert_fields dumps template_id i [] d = d"
| "insert_fields dumps template_id i (field # rest) d =
     (if sf_type field \<in> set field_types then
        insert_fields dumps template_id (i + 1) rest
          (d\<lparr>template_fields := template_fields d @
                [\<lparr>fld_id = seq_template_fields d + 1, fld_template_id = template_id,
                  fld_field_key = sf_key field, fld_field_label = sf_label field,
                  fld_field_type = sf_type field,
                  fld_is_required =
                    (case sf_required field of None \<Rightarrow> 0 | Some b \<Rightarrow> if b then 1 else 0),
                  fld_min_value = sf_min field, fld_max_value = sf_max field,
                  fld_format = None, fld_placeholder = sf_placeholder field,
                  fld_options = map_option (\<lambda>opts. dumps (JArr (map JStr opts))) (sf_options field),
                  fld_order_index = i\<rparr>],
             seq_template_fields := seq_template_fields d + 1\<rparr>)
      else d)"

text \<open>
  The outer loop \<open>for template in templates_data\<close> with its \<open>try\<close>: a template whose INSERT
  raises is passed over, and \<open>added_count\<close> counts the others.
\<close>

fun insert_templates ::
  "(json \<Rightarrow> ustr) \<Rightarrow> ustr \<Rightarrow> (ustr \<rightharpoonup> int) \<Rightarrow> seed_template list \<Rightarrow> nat \<Rightarrow> db \<Rightarrow> nat \<times> db" where
  "insert_templates dumps now category_ids [] added_count d = (added_count, d)"
| "insert_templates dumps now category_ids (t # rest) added_count d =
     (case insert_template now category_ids t d of
        None \<Rightarrow> insert_templates dumps now category_ids rest added_count d
      | Some (template_id, d') \<Rightarrow>
          insert_templates dumps now category_ids rest (added_count + 1)
            (insert_fields dumps template_id 0 (sd_fields t) d'))"

record seed_response =
  sr_templates_added :: nat
  sr_templates_list :: "ustr list"

text \<open>The three DELETE statements, in the order of the source.\<close>

definition clear_catalog :: "db \<Rightarrow> db" where
  "clear_catalog d = ((d\<lparr>template_fields := []\<rparr>)\<lparr>templates := []\<rparr>)\<lparr>categories := []\<rparr>"

text \<open>
  The body of \<open>seed_database\<close> over its two literals, \<open>categories\<close> and \<open>templates_data\<close>.
\<close>

definition seed_with ::
  "(json \<Rightarrow> ustr) \<Rightarrow> ustr \<Rightarrow> (ustr \<times> ustr) list \<Rightarrow> seed_template list \<Rightarrow> db \<Rightarrow> seed_response \<times> db" where
  "seed_with dumps now cats tdata d =
     (case insert_categories now cats Map.empty (clear_catalog d) of
        (category_ids, d1) \<Rightarrow>
          (case insert_templates dumps now category_ids tdata 0 d1 of
             (added_count, d2) \<Rightarrow>
               (\<lparr>sr_templates_added = added_count,
                 sr_templates_list = map sd_name (take added_count tdata)\<rparr>, d2)))"

subsection \<open>The fixed catalog\<close>

text \<open>
  The literals \<open>categories\<close> and \<open>templates_data\<close> of \<open>seed_database\<close>, code point by code
  point.
\<close>

definition categories_seed :: "(ustr \<times> ustr) list" where
  "categories_seed =
    [([1044, 1086, 1075, 1086, 1074, 1086, 1088, 1099],
      [1070, 1088, 1080, 1076, 1080, 1095, 1077, 1089, 1082, 1080, 1077, 32, 1076, 1086, 1075, 1086,
       1074, 1086, 1088, 1099, 32, 1088, 1072, 1079, 1083, 1080, 1095, 1085, 1099, 1093, 32, 1090,
       1080, 1087, 1086, 1074]),
     ([1047, 1072, 1103, 1074, 1083, 1077, 1085, 1080, 1103],
      [1054, 1092, 1080, 1094, 1080, 1072, 1083, 1100, 1085, 1099, 1077, 32, 1079, 1072, 1103, 1074,
       1083, 1077, 1085, 1080, 1103]),
     ([1048, 1089, 1082, 1086, 1074, 1099, 1077, 32, 1079, 1072, 1103, 1074, 1083, 1077, 1085, 1080,
       1103],
      [1044, 1086, 1082, 1091, 1084, 1077, 1085, 1090, 1099, 32, 1076, 1083, 1103, 32, 1087, 1086,
       1076, 1072, 1095, 1080, 32, 1074, 32, 1089, 1091, 1076]),
     ([1057, 1086, 1075, 1083, 1072, 1096, 1077, 1085, 1080, 1103, 32, 1080, 32, 1088, 1072, 1089,
       1090, 1086, 1088, 1078, 1077, 1085, 1080, 1103],
      [1044, 1086, 1087, 1086, 1083, 1085, 1080, 1090, 1077, 1083, 1100, 1085, 1099, 1077, 32, 1089,
       1086, 1075, 1083, 1072, 1096, 1077, 1085, 1080, 1103, 32, 1080, 32, 1088, 1072, 1089, 1090,
       1086, 1088, 1078, 1077, 1085, 1080, 1103, 32, 1076, 1086, 1075, 1086, 1074, 1086, 1088, 1086,
       1074]),
     ([1040, 1082, 1090, 1099],
      [1040, 1082, 1090, 1099, 32, 1087, 1088, 1080, 1077, 1084, 1072, 45, 1087, 1077, 1088, 1077,
       1076, 1072, 1095, 1080, 32, 1080, 32, 1076, 1088, 1091, 1075, 1080, 1077, 32, 1072, 1082, 1090,
       1099]),
     ([1044, 1086, 1074, 1077, 1088, 1077, 1085, 1085, 1086, 1089, 1090, 1080],
      [1044, 1086, 1074, 1077, 1088, 1077, 1085, 1085, 1086, 1089, 1090, 1080, 32, 1088, 1072, 1079,
       1083, 1080, 1095, 1085, 1086, 1075, 1086, 32, 1085, 1072, 1079, 1085, 1072, 1095, 1077, 1085,
       1080, 1103]),
     ([1055, 1088, 1080, 1082, 1072, 1079, 1099],
      [1054, 1088, 1075, 1072, 1085, 1080, 1079, 1072, 1094, 1080, 1086, 1085, 1085, 1086, 45, 1088,
       1072, 1089, 1087, 1086, 1088, 1103, 1076, 1080, 1090, 1077, 1083, 1100, 1085, 1099, 1077, 32,
       1076, 1086, 1082, 1091, 1084, 1077, 1085, 1090, 1099]),
     ([1055, 1088, 1086, 1095, 1077, 1077],
      [1055, 1088, 1086, 1095, 1080, 1077, 32, 1076, 1086, 1082, 1091, 1084, 1077, 1085, 1090, 1099])]"

definition template_data_1 :: seed_template where
  "template_data_1 =
    \<lparr>sd_name = [1054, 1073, 1088, 1072, 1079, 1077, 1094, 32, 1076, 1086, 1075, 1086, 1074, 1086, 1088, 1072,
       32, 1072, 1088, 1077, 1085, 1076, 1099, 32, 1082, 1074, 1072, 1088, 1090, 1080, 1088, 1099, 32,
       1089, 32, 1084, 1077, 1073, 1077, 1083, 1100, 1102, 32, 1080, 32, 1073, 1099, 1090, 1086, 1074,
       1086, 1081, 32, 1090, 1077, 1093, 1085, 1080, 1082, 1086, 1081],
     sd_category = [1044, 1086, 1075, 1086, 1074, 1086, 1088, 1099],
     sd_type = [1044, 1086, 1075, 1086, 1074, 1086, 1088],
     sd_word_count = 149900,
     sd_description = Some ([1055, 1086, 1083, 1085, 1099, 1081, 32, 1076, 1086, 1075, 1086, 1074, 1086, 1088, 32,
       1072, 1088, 1077, 1085, 1076, 1099, 32, 1082, 1074, 1072, 1088, 1090, 1080, 1088, 1099, 32,
       1089, 32, 1084, 1077, 1073, 1077, 1083, 1100, 1102, 32, 1080, 32, 1090, 1077, 1093, 1085, 1080,
       1082, 1086, 1081, 32, 1076, 1083, 1103, 32, 1076, 1083, 1080, 1090, 1077, 1083, 1100, 1085,
       1086, 1081, 32, 1072, 1088, 1077, 1085, 1076, 1099]),
     sd_fields =
      [\<lparr>sf_key = lit ''landlord_name'',
       sf_label = [1060, 1048, 1054, 32, 1040, 1088, 1077, 1085, 1076, 1086, 1076, 1072, 1090, 1077,
         1083, 1103],
       sf_type = lit ''text'',
       sf_required = Some (True),
       sf_placeholder = Some ([1048, 1074, 1072, 1085, 1086, 1074, 32, 1048, 1074, 1072, 1085, 32,
         1048, 1074, 1072, 1085, 1086, 1074, 1080, 1095]),
       sf_min = None,
       sf_max = None,
       sf_options = None\<rparr>,
       \<lparr>sf_key = lit ''landlord_passport'',
       sf_label = [1055, 1072, 1089, 1087, 1086, 1088, 1090, 1085, 1099, 1077, 32, 1076, 1072, 1085,
         1085, 1099, 1077, 32, 1040, 1088, 1077, 1085, 1076, 1086, 1076, 1072, 1090, 1077, 1083, 1103],
       sf_type = lit ''text'',
       sf_required = Some (True),
       sf_placeholder = Some ([1057, 1077, 1088, 1080, 1103, 32, 49, 50, 51, 52, 32, 8470, 53, 54, 55,
         56, 57, 48, 32, 1074, 1099, 1076, 1072, 1085, 32, 1054, 1042, 1044, 32, 1088, 1072, 1081, 1086,
         1085, 1072]),
       sf_min = None,
       sf_max = None,
       sf_options = None\<rparr>,
       \<lparr>sf_key = lit ''tenant_name'',
       sf_label = [1060, 1048, 1054, 32, 1040, 1088, 1077, 1085, 1076, 1072, 1090, 1086, 1088, 1072],
       sf_type = lit ''text'',
       sf_required = Some (True),
       sf_placeholder = Some ([1055, 1077, 1090, 1088, 1086, 1074, 32, 1055, 1077, 1090, 1088, 32,
         1055, 1077, 1090, 1088, 1086, 1074, 1080, 1095]),
       sf_min = None,
       sf_max = None,
       sf_options = None\<rparr>,
       \<lparr>sf_key = lit ''tenant_passport'',
       sf_label = [1055, 1072, 1089, 1087, 1086, 1088, 1090, 1085, 1099, 1077, 32, 1076, 1072, 1085,
         1085, 1099, 1077, 32, 1040, 1088, 1077, 1085, 1076, 1072, 1090, 1086, 1088, 1072],
       sf_type = lit ''text'',
       sf_required = Some (True),
       sf_placeholder = Some ([1057, 1077, 1088, 1080, 1103, 32, 52, 51, 50, 49, 32, 8470, 48, 57, 56,
         55, 54, 53, 32, 1074, 1099, 1076, 1072, 1085, 32, 1054, 1042, 1044, 32, 1088, 1072, 1081, 1086,
         1085, 1072]),
       sf_min = None,
       sf_max = None,
       sf_options = None\<rparr>,
       \<lparr>sf_key = lit ''address'',
       sf_label = [1040, 1076, 1088, 1077, 1089, 32, 1082, 1074, 1072, 1088, 1090, 1080, 1088, 1099],
       sf_type = lit ''text'',
       sf_required = Some (True),
       sf_placeholder = Some ([1075, 46, 32, 1052, 1086, 1089, 1082, 1074, 1072, 44, 32, 1091, 1083,
         46, 32, 1051, 1077, 1085, 1080, 1085, 1072, 44, 32, 1076, 46, 32, 49, 44, 32, 1082, 1074, 46,
         32, 49]),
       sf_min = None,
       sf_max = None,
       sf_options = None\<rparr>,
       \<lparr>sf_key = lit ''apartment_area'',
       sf_label = [1055, 1083, 1086, 1097, 1072, 1076, 1100, 32, 1082, 1074, 1072, 1088, 1090, 1080,
         1088, 1099, 32, 40, 1082, 1074, 46, 1084, 46, 41],
       sf_type = lit ''number'',
       sf_required = Some (True),
       sf_placeholder = None,
       sf_min = Some (10),
       sf_max = Some (500),
       sf_options = None\<rparr>,
       \<lparr>sf_key = lit ''rooms_count'',
       sf_label = [1050, 1086, 1083, 1080, 1095, 1077, 1089, 1090, 1074, 1086, 32, 1082, 1086, 1084,
         1085, 1072, 1090],
       sf_type = lit ''number'',
       sf_required = Some (True),
       sf_placeholder = None,
       sf_min = Some (1),
       sf_max = Some (10),
       sf_options = None\<rparr>,
       \<lparr>sf_key = lit ''rent_amount'',
       sf_label = [1057, 1091, 1084, 1084, 1072, 32, 1072, 1088, 1077, 1085, 1076, 1099, 32, 40, 1088,
         1091, 1073, 46, 47, 1084, 1077, 1089, 46, 41],
       sf_type = lit ''number'',
       sf_required = Some (True),
       sf_placeholder = None,
       sf_min = Some (1000),
       sf_max = Some (1000000),
       sf_options = None\<rparr>,
       \<lparr>sf_key = lit ''start_date'',
       sf_label = [1044, 1072, 1090, 1072, 32, 1085, 1072, 1095, 1072, 1083, 1072, 32, 1072, 1088,
         1077, 1085, 1076, 1099],
       sf_type = lit ''date'',
       sf_required = Some (True),
       sf_placeholder = None,
       sf_min = None,
       sf_max = None,
       sf_options = None\<rparr>,
       \<lparr>sf_key = lit ''end_date'',
       sf_label = [1044, 1072, 1090, 1072, 32, 1086, 1082, 1086, 1085, 1095, 1072, 1085, 1080, 1103,
         32, 1072, 1088, 1077, 1085, 1076, 1099],
       sf_type = lit ''date'',
       sf_required = Some (True),
       sf_placeholder = None,
       sf_min = None,
       sf_max = None,
       sf_options = None\<rparr>,
       \<lparr>sf_key = lit ''deposit'',
       sf_label = [1047, 1072, 1083, 1086, 1075, 32, 40, 1088, 1091, 1073, 46, 41],
       sf_type = lit ''number'',
       sf_required = Some (False),
       sf_placeholder = None,
       sf_min = Some (0),
       sf_max = None,
       sf_options = None\<rparr>,
       \<lparr>sf_key = lit ''utilities_included'',
       sf_label = [1050, 1086, 1084, 1084, 1091, 1085, 1072, 1083, 1100, 1085, 1099, 1077, 32, 1091,
         1089, 1083, 1091, 1075, 1080, 32, 1074, 1082, 1083, 1102, 1095, 1077, 1085, 1099],
       sf_type = lit ''boolean'',
       sf_required = Some (False),
       sf_placeholder = None,
       sf_min = None,
       sf_max = None,
       sf_options = None\<rparr>]\<rparr>"

definition template_data_2 :: seed_template where
  "template_data_2 =
    \<lparr>sd_name = [1044, 1086, 1075, 1086, 1074, 1086, 1088, 32, 1082, 1091, 1087, 1083, 1080, 45, 1087, 1088,
       1086, 1076, 1072, 1078, 1080, 32, 1090, 1088, 1072, 1085, 1089, 1087, 1086, 1088, 1090, 1085,
       1086, 1075, 1086, 32, 1089, 1088, 1077, 1076, 1089, 1090, 1074, 1072],
     sd_category = [1044, 1086, 1075, 1086, 1074, 1086, 1088, 1099],
     sd_type = [1044, 1086, 1075, 1086, 1074, 1086, 1088],
     sd_word_count = 20017,
     sd_description = Some ([1044, 1086, 1075, 1086, 1074, 1086, 1088, 32, 1082, 1091, 1087, 1083, 1080, 45, 1087,
       1088, 1086, 1076, 1072, 1078, 1080, 32, 1072, 1074, 1090, 1086, 1084, 1086, 1073, 1080, 1083,
       1103, 32, 1084, 1077, 1078, 1076, 1091, 32, 1092, 1080, 1079, 1080, 1095, 1077, 1089, 1082,
       1080, 1084, 1080, 32, 1083, 1080, 1094, 1072, 1084, 1080]),
     sd_fields =
      [\<lparr>sf_key = lit ''seller_name'',
       sf_label = [1060, 1048, 1054, 32, 1055, 1088, 1086, 1076, 1072, 1074, 1094, 1072],
       sf_type = lit ''text'',
       sf_required = Some (True),
       sf_placeholder = Some ([1057, 1080, 1076, 1086, 1088, 1086, 1074, 32, 1040, 1083, 1077, 1082,
         1089, 1077, 1081, 32, 1042, 1083, 1072, 1076, 1080, 1084, 1080, 1088, 1086, 1074, 1080, 1095]),
       sf_min = None,
       sf_max = None,
       sf_options = None\<rparr>,
       \<lparr>sf_key = lit ''seller_passport'',
       sf_label = [1055, 1072, 1089, 1087, 1086, 1088, 1090, 1085, 1099, 1077, 32, 1076, 1072, 1085,
         1085, 1099, 1077, 32, 1055, 1088, 1086, 1076, 1072, 1074, 1094, 1072],
       sf_type = lit ''text'',
       sf_required = Some (True),
       sf_placeholder = Some ([1057, 1077, 1088, 1080, 1103, 32, 49, 49, 49, 49, 32, 8470, 50, 50, 50,
         50, 50, 50]),
       sf_min = None,
       sf_max = None,
       sf_options = None\<rparr>,
       \<lparr>sf_key = lit ''buyer_name'',
       sf_label = [1060, 1048, 1054, 32, 1055, 1086, 1082, 1091, 1087, 1072, 1090, 1077, 1083, 1103],
       sf_type = lit ''text'',
       sf_required = Some (True),
       sf_placeholder = Some ([1050, 1091, 1079, 1085, 1077, 1094, 1086, 1074, 32, 1044, 1084, 1080,
         1090, 1088, 1080, 1081, 32, 1057, 1077, 1088, 1075, 1077, 1077, 1074, 1080, 1095]),
       sf_min = None,
       sf_max = None,
       sf_options = None\<rparr>,
       \<lparr>sf_key = lit ''buyer_passport'',
       sf_label = [1055, 1072, 1089, 1087, 1086, 1088, 1090, 1085, 1099, 1077, 32, 1076, 1072, 1085,
         1085, 1099, 1077, 32, 1055, 1086, 1082, 1091, 1087, 1072, 1090, 1077, 1083, 1103],
       sf_type = lit ''text'',
       sf_required = Some (True),
       sf_placeholder = Some ([1057, 1077, 1088, 1080, 1103, 32, 51, 51, 51, 51, 32, 8470, 52, 52, 52,
         52, 52, 52]),
       sf_min = None,
       sf_max = None,
       sf_options = None\<rparr>,
       \<lparr>sf_key = lit ''car_brand'',
       sf_label = [1052, 1072, 1088, 1082, 1072, 32, 1072, 1074, 1090, 1086, 1084, 1086, 1073, 1080,
         1083, 1103],
       sf_type = lit ''text'',
       sf_required = Some (True),
       sf_placeholder = Some (lit ''Toyota''),
       sf_min = None,
       sf_max = None,
       sf_options = None\<rparr>,
       \<lparr>sf_key = lit ''car_model'',
       sf_label = [1052, 1086, 1076, 1077, 1083, 1100, 32, 1072, 1074, 1090, 1086, 1084, 1086, 1073,
         1080, 1083, 1103],
       sf_type = lit ''text'',
       sf_required = Some (True),
       sf_placeholder = Some (lit ''Camry''),
       sf_min = None,
       sf_max = None,
       sf_options = None\<rparr>,
       \<lparr>sf_key = lit ''car_year'',
       sf_label = [1043, 1086, 1076, 32, 1074, 1099, 1087, 1091, 1089, 1082, 1072],
       sf_type = lit ''number'',
       sf_required = Some (True),
       sf_placeholder = None,
       sf_min = Some (1980),
       sf_max = Some (2024),
       sf_options = None\<rparr>,
       \<lparr>sf_key = lit ''vin'',
       sf_label = [86, 73, 78, 32, 1085, 1086, 1084, 1077, 1088],
       sf_type = lit ''text'',
       sf_required = Some (True),
       sf_placeholder = Some (lit ''JTDBR32E160123456''),
       sf_min = None,
       sf_max = None,
       sf_options = None\<rparr>,
       \<lparr>sf_key = lit ''state_number'',
       sf_label = [1043, 1086, 1089, 1091, 1076, 1072, 1088, 1089, 1090, 1074, 1077, 1085, 1085, 1099,
         1081, 32, 1085, 1086, 1084, 1077, 1088],
       sf_type = lit ''text'',
       sf_required = Some (True),
       sf_placeholder = Some ([1040, 49, 50, 51, 1041, 1042, 55, 55]),
       sf_min = None,
       sf_max = None,
       sf_options = None\<rparr>,
       \<lparr>sf_key = lit ''price'',
       sf_label = [1062, 1077, 1085, 1072, 32, 40, 1088, 1091, 1073, 46, 41],
       sf_type = lit ''number'',
       sf_required = Some (True),
       sf_placeholder = None,
       sf_min = Some (1000),
       sf_max = Some (10000000),
       sf_options = None\<rparr>,
       \<lparr>sf_key = lit ''sale_date'',
       sf_label = [1044, 1072, 1090, 1072, 32, 1087, 1088, 1086, 1076, 1072, 1078, 1080],
       sf_type = lit ''date'',
       sf_required = Some (True),
       sf_placeholder = None,
       sf_min = None,
       sf_max = None,
       sf_options = None\<rparr>,
       \<lparr>sf_key = lit ''payment_method'',
       sf_label = [1057, 1087, 1086, 1089, 1086, 1073, 32, 1086, 1087, 1083, 1072, 1090, 1099],
       sf_type = lit ''select'',
       sf_required = Some (True),
       sf_placeholder = None,
       sf_min = None,
       sf_max = None,
       sf_options = Some ([[1053, 1072, 1083, 1080, 1095, 1085, 1099, 1077], [1041, 1072, 1085, 1082,
         1086, 1074, 1089, 1082, 1080, 1081, 32, 1087, 1077, 1088, 1077, 1074, 1086, 1076], [1044, 1088,
         1091, 1075, 1086, 1077]])\<rparr>]\<rparr>"

definition template_data_3 :: seed_template where
  "template_data_3 =
    \<lparr>sd_name = [1054, 1073, 1088, 1072, 1079, 1077, 1094, 32, 1090, 1088, 1091, 1076, 1086, 1074, 1086, 1075,
       1086, 32, 1076, 1086, 1075, 1086, 1074, 1086, 1088, 1072],
     sd_category = [1044, 1086, 1075, 1086, 1074, 1086, 1088, 1099],
     sd_type = [1044, 1086, 1075, 1086, 1074, 1086, 1088],
     sd_word_count = 79545,
     sd_description = Some ([1057, 1090, 1072, 1085, 1076, 1072, 1088, 1090, 1085, 1099, 1081, 32, 1090, 1088, 1091,
       1076, 1086, 1074, 1086, 1081, 32, 1076, 1086, 1075, 1086, 1074, 1086, 1088, 32, 1084, 1077,
       1078, 1076, 1091, 32, 1088, 1072, 1073, 1086, 1090, 1086, 1076, 1072, 1090, 1077, 1083, 1077,
       1084, 32, 1080, 32, 1088, 1072, 1073, 1086, 1090, 1085, 1080, 1082, 1086, 1084]),
     sd_fields =
      [\<lparr>sf_key = lit ''employer_name'',
       sf_label = [1053, 1072, 1080, 1084, 1077, 1085, 1086, 1074, 1072, 1085, 1080, 1077, 32, 1088,
         1072, 1073, 1086, 1090, 1086, 1076, 1072, 1090, 1077, 1083, 1103],
       sf_type = lit ''text'',
       sf_required = Some (True),
       sf_placeholder = Some ([1054, 1054, 1054, 32, 34, 1056, 1086, 1084, 1072, 1096, 1082, 1072, 34]),
       sf_min = None,
       sf_max = None,
       sf_options = None\<rparr>,
       \<lparr>sf_key = lit ''employer_details'',
       sf_label = [1056, 1077, 1082, 1074, 1080, 1079, 1080, 1090, 1099, 32, 1088, 1072, 1073, 1086,
         1090, 1086, 1076, 1072, 1090, 1077, 1083, 1103],
       sf_type = lit ''textarea'',
       sf_required = Some (True),
       sf_placeholder = Some ([1048, 1053, 1053, 32, 49, 50, 51, 52, 53, 54, 55, 56, 57, 48, 44, 32,
         1054, 1043, 1056, 1053, 32, 49, 50, 51, 52, 53, 54, 55, 56, 57, 48, 49, 50, 51]),
       sf_min = None,
       sf_max = None,
       sf_options = None\<rparr>,
       \<lparr>sf_key = lit ''employee_name'',
       sf_label = [1060, 1048, 1054, 32, 1088, 1072, 1073, 1086, 1090, 1085, 1080, 1082, 1072],
       sf_type = lit ''text'',
       sf_required = Some (True),
       sf_placeholder = Some ([1057, 1084, 1080, 1088, 1085, 1086, 1074, 1072, 32, 1040, 1085, 1085,
         1072, 32, 1055, 1077, 1090, 1088, 1086, 1074, 1085, 1072]),
       sf_min = None,
       sf_max = None,
       sf_options = None\<rparr>,
       \<lparr>sf_key = lit ''employee_passport'',
       sf_label = [1055, 1072, 1089, 1087, 1086, 1088, 1090, 1085, 1099, 1077, 32, 1076, 1072, 1085,
         1085, 1099, 1077, 32, 1088, 1072, 1073, 1086, 1090, 1085, 1080, 1082, 1072],
       sf_type = lit ''text'',
       sf_required = Some (True),
       sf_placeholder = None,
       sf_min = None,
       sf_max = None,
       sf_options = None\<rparr>,
       \<lparr>sf_key = lit ''position'',
       sf_label = [1044, 1086, 1083, 1078, 1085, 1086, 1089, 1090, 1100],
       sf_type = lit ''text'',
       sf_required = Some (True),
       sf_placeholder = Some ([1052, 1077, 1085, 1077, 1076, 1078, 1077, 1088, 32, 1087, 1086, 32,
         1087, 1088, 1086, 1076, 1072, 1078, 1072, 1084]),
       sf_min = None,
       sf_max = None,
       sf_options = None\<rparr>,
       \<lparr>sf_key = lit ''department'',
       sf_label = [1054, 1090, 1076, 1077, 1083, 47, 1087, 1086, 1076, 1088, 1072, 1079, 1076, 1077,
         1083, 1077, 1085, 1080, 1077],
       sf_type = lit ''text'',
       sf_required = Some (True),
       sf_placeholder = Some ([1054, 1090, 1076, 1077, 1083, 32, 1087, 1088, 1086, 1076, 1072, 1078]),
       sf_min = None,
       sf_max = None,
       sf_options = None\<rparr>,
       \<lparr>sf_key = lit ''salary'',
       sf_label = [1054, 1082, 1083, 1072, 1076, 32, 40, 1088, 1091, 1073, 46, 41],
       sf_type = lit ''number'',
       sf_required = Some (True),
       sf_placeholder = None,
       sf_min = Some (16242),
       sf_max = Some (1000000),
       sf_options = None\<rparr>,
       \<lparr>sf_key = lit ''start_date'',
       sf_label = [1044, 1072, 1090, 1072, 32, 1085, 1072, 1095, 1072, 1083, 1072, 32, 1088, 1072,
         1073, 1086, 1090, 1099],
       sf_type = lit ''date'',
       sf_required = Some (True),
       sf_placeholder = None,
       sf_min = None,
       sf_max = None,
       sf_options = None\<rparr>,
       \<lparr>sf_key = lit ''contract_type'',
       sf_label = [1042, 1080, 1076, 32, 1076, 1086, 1075, 1086, 1074, 1086, 1088, 1072],
       sf_type = lit ''select'',
       sf_required = Some (True),
       sf_placeholder = None,
       sf_min = None,
       sf_max = None,
       sf_options = Some ([[1041, 1077, 1089, 1089, 1088, 1086, 1095, 1085, 1099, 1081], [1057, 1088,
         1086, 1095, 1085, 1099, 1081, 32, 40, 1076, 1086, 32, 53, 32, 1083, 1077, 1090, 41], [1057,
         1077, 1079, 1086, 1085, 1085, 1099, 1081], [1053, 1072, 32, 1074, 1088, 1077, 1084, 1103, 32,
         1074, 1099, 1087, 1086, 1083, 1085, 1077, 1085, 1080, 1103, 32, 1088, 1072, 1073, 1086, 1090,
         1099]])\<rparr>,
       \<lparr>sf_key = lit ''probation_period'',
       sf_label = [1048, 1089, 1087, 1099, 1090, 1072, 1090, 1077, 1083, 1100, 1085, 1099, 1081, 32,
         1089, 1088, 1086, 1082, 32, 40, 1084, 1077, 1089, 1103, 1094, 1077, 1074, 41],
       sf_type = lit ''number'',
       sf_required = Some (False),
       sf_placeholder = None,
       sf_min = Some (0),
       sf_max = Some (6),
       sf_options = None\<rparr>,
       \<lparr>sf_key = lit ''work_schedule'',
       sf_label = [1043, 1088, 1072, 1092, 1080, 1082, 32, 1088, 1072, 1073, 1086, 1090, 1099],
       sf_type = lit ''select'',
       sf_required = Some (True),
       sf_placeholder = None,
       sf_min = None,
       sf_max = None,
       sf_options = Some ([lit ''5/2'', lit ''6/1'', [1057, 1084, 1077, 1085, 1085, 1099, 1081], [1043,
         1080, 1073, 1082, 1080, 1081]])\<rparr>]\<rparr>"

definition template_data_4 :: seed_template where
  "template_data_4 =
    \<lparr>sd_name = [1054, 1073, 1088, 1072, 1079, 1077, 1094, 32, 1079, 1072, 1103, 1074, 1083, 1077, 1085, 1080,
       1103, 32, 1085, 1072, 32, 1086, 1087, 1083, 1072, 1095, 1080, 1074, 1072, 1077, 1084, 1099,
       1081, 32, 1086, 1090, 1087, 1091, 1089, 1082],
     sd_category = [1047, 1072, 1103, 1074, 1083, 1077, 1085, 1080, 1103],
     sd_type = [1047, 1072, 1103, 1074, 1083, 1077, 1085, 1080, 1077],
     sd_word_count = 15284,
     sd_description = Some ([1047, 1072, 1103, 1074, 1083, 1077, 1085, 1080, 1077, 32, 1085, 1072, 32, 1077, 1078,
       1077, 1075, 1086, 1076, 1085, 1099, 1081, 32, 1086, 1087, 1083, 1072, 1095, 1080, 1074, 1072,
       1077, 1084, 1099, 1081, 32, 1086, 1090, 1087, 1091, 1089, 1082]),
     sd_fields =
      [\<lparr>sf_key = lit ''to_director'',
       sf_label = [1050, 1086, 1084, 1091, 32, 40, 1076, 1086, 1083, 1078, 1085, 1086, 1089, 1090,
         1100, 44, 32, 1060, 1048, 1054, 41],
       sf_type = lit ''text'',
       sf_required = Some (True),
       sf_placeholder = Some ([1043, 1077, 1085, 1077, 1088, 1072, 1083, 1100, 1085, 1086, 1084, 1091,
         32, 1076, 1080, 1088, 1077, 1082, 1090, 1086, 1088, 1091, 32, 1054, 1054, 1054, 32, 34, 1056,
         1086, 1084, 1072, 1096, 1082, 1072, 34, 32, 1048, 1074, 1072, 1085, 1086, 1074, 1091, 32, 1048,
         46, 1048, 46]),
       sf_min = None,
       sf_max = None,
       sf_options = None\<rparr>,
       \<lparr>sf_key = lit ''employee_name'',
       sf_label = [1054, 1090, 32, 1082, 1086, 1075, 1086, 32, 40, 1060, 1048, 1054, 32, 1089, 1086,
         1090, 1088, 1091, 1076, 1085, 1080, 1082, 1072, 41],
       sf_type = lit ''text'',
       sf_required = Some (True),
       sf_placeholder = Some ([1055, 1077, 1090, 1088, 1086, 1074, 1072, 32, 1052, 1072, 1088, 1080,
         1103, 32, 1057, 1077, 1088, 1075, 1077, 1077, 1074, 1085, 1072]),
       sf_min = None,
       sf_max = None,
       sf_options = None\<rparr>,
       \<lparr>sf_key = lit ''position'',
       sf_label = [1044, 1086, 1083, 1078, 1085, 1086, 1089, 1090, 1100],
       sf_type = lit ''text'',
       sf_required = Some (True),
       sf_placeholder = Some ([1052, 1077, 1085, 1077, 1076, 1078, 1077, 1088]),
       sf_min = None,
       sf_max = None,
       sf_options = None\<rparr>,
       \<lparr>sf_key = lit ''department'',
       sf_label = [1054, 1090, 1076, 1077, 1083],
       sf_type = lit ''text'',
       sf_required = Some (True),
       sf_placeholder = Some ([1054, 1090, 1076, 1077, 1083, 32, 1084, 1072, 1088, 1082, 1077, 1090,
         1080, 1085, 1075, 1072]),
       sf_min = None,
       sf_max = None,
       sf_options = None\<rparr>,
       \<lparr>sf_key = lit ''vacation_start'',
       sf_label = [1044, 1072, 1090, 1072, 32, 1085, 1072, 1095, 1072, 1083, 1072, 32, 1086, 1090,
         1087, 1091, 1089, 1082, 1072],
       sf_type = lit ''date'',
       sf_required = Some (True),
       sf_placeholder = None,
       sf_min = None,
       sf_max = None,
       sf_options = None\<rparr>,
       \<lparr>sf_key = lit ''vacation_end'',
       sf_label = [1044, 1072, 1090, 1072, 32, 1086, 1082, 1086, 1085, 1095, 1072, 1085, 1080, 1103,
         32, 1086, 1090, 1087, 1091, 1089, 1082, 1072],
       sf_type = lit ''date'',
       sf_required = Some (True),
       sf_placeholder = None,
       sf_min = None,
       sf_max = None,
       sf_options = None\<rparr>,
       \<lparr>sf_key = lit ''vacation_days'',
       sf_label = [1050, 1086, 1083, 1080, 1095, 1077, 1089, 1090, 1074, 1086, 32, 1082, 1072, 1083,
         1077, 1085, 1076, 1072, 1088, 1085, 1099, 1093, 32, 1076, 1085, 1077, 1081],
       sf_type = lit ''number'',
       sf_required = Some (True),
       sf_placeholder = None,
       sf_min = Some (1),
       sf_max = Some (60),
       sf_options = None\<rparr>,
       \<lparr>sf_key = lit ''vacation_type'',
       sf_label = [1058, 1080, 1087, 32, 1086, 1090, 1087, 1091, 1089, 1082, 1072],
       sf_type = lit ''select'',
       sf_required = Some (True),
       sf_placeholder = None,
       sf_min = None,
       sf_max = None,
       sf_options = Some ([[1045, 1078, 1077, 1075, 1086, 1076, 1085, 1099, 1081, 32, 1086, 1087, 1083,
         1072, 1095, 1080, 1074, 1072, 1077, 1084, 1099, 1081], [1041, 1077, 1079, 32, 1089, 1086, 1093,
         1088, 1072, 1085, 1077, 1085, 1080, 1103, 32, 1079, 1072, 1088, 1087, 1083, 1072, 1090, 1099],
         [1059, 1095, 1077, 1073, 1085, 1099, 1081], [1055, 1086, 32, 1073, 1077, 1088, 1077, 1084, 1077,
         1085, 1085, 1086, 1089, 1090, 1080, 32, 1080, 32, 1088, 1086, 1076, 1072, 1084]])\<rparr>,
       \<lparr>sf_key = lit ''application_date'',
       sf_label = [1044, 1072, 1090, 1072, 32, 1079, 1072, 1103, 1074, 1083, 1077, 1085, 1080, 1103],
       sf_type = lit ''date'',
       sf_required = Some (True),
       sf_placeholder = None,
       sf_min = None,
       sf_max = None,
       sf_options = None\<rparr>,
       \<lparr>sf_key = lit ''phone'',
       sf_label = [1050, 1086, 1085, 1090, 1072, 1082, 1090, 1085, 1099, 1081, 32, 1090, 1077, 1083,
         1077, 1092, 1086, 1085],
       sf_type = lit ''phone'',
       sf_required = Some (False),
       sf_placeholder = Some (lit ''+7 (999) 123-45-67''),
       sf_min = None,
       sf_max = None,
       sf_options = None\<rparr>]\<rparr>"

definition template_data_5 :: seed_template where
  "template_data_5 =
    \<lparr>sd_name = [1054, 1073, 1088, 1072, 1079, 1077, 1094, 32, 1076, 1086, 1075, 1086, 1074, 1086, 1088, 1072,
       32, 1087, 1086, 1076, 1088, 1103, 1076, 1072, 44, 32, 1079, 1072, 1082, 1083, 1102, 1095, 1072,
       1077, 1084, 1086, 1075, 1086, 32, 1084, 1077, 1078, 1076, 1091, 32, 1102, 1088, 1080, 1076,
       1080, 1095, 1077, 1089, 1082, 1080, 1084, 32, 1080, 32, 1092, 1080, 1079, 1080, 1095, 1077,
       1089, 1082, 1080, 1084, 32, 1083, 1080, 1094, 1086, 1084],
     sd_category = [1044, 1086, 1075, 1086, 1074, 1086, 1088, 1099],
     sd_type = [1044, 1086, 1075, 1086, 1074, 1086, 1088],
     sd_word_count = 217729,
     sd_description = Some ([1044, 1086, 1075, 1086, 1074, 1086, 1088, 32, 1087, 1086, 1076, 1088, 1103, 1076, 1072,
       32, 1085, 1072, 32, 1074, 1099, 1087, 1086, 1083, 1085, 1077, 1085, 1080, 1077, 32, 1088, 1072,
       1073, 1086, 1090, 32, 1084, 1077, 1078, 1076, 1091, 32, 1082, 1086, 1084, 1087, 1072, 1085,
       1080, 1077, 1081, 32, 1080, 32, 1092, 1080, 1079, 1080, 1095, 1077, 1089, 1082, 1080, 1084, 32,
       1083, 1080, 1094, 1086, 1084]),
     sd_fields =
      [\<lparr>sf_key = lit ''customer_name'',
       sf_label = [1053, 1072, 1080, 1084, 1077, 1085, 1086, 1074, 1072, 1085, 1080, 1077, 32, 1047,
         1072, 1082, 1072, 1079, 1095, 1080, 1082, 1072, 32, 40, 1082, 1086, 1084, 1087, 1072, 1085,
         1080, 1103, 41],
       sf_type = lit ''text'',
       sf_required = Some (True),
       sf_placeholder = Some ([1054, 1054, 1054, 32, 34, 1057, 1090, 1088, 1086, 1081, 1043, 1072,
         1088, 1072, 1085, 1090, 34]),
       sf_min = None,
       sf_max = None,
       sf_options = None\<rparr>,
       \<lparr>sf_key = lit ''customer_details'',
       sf_label = [1056, 1077, 1082, 1074, 1080, 1079, 1080, 1090, 1099, 32, 1047, 1072, 1082, 1072,
         1079, 1095, 1080, 1082, 1072],
       sf_type = lit ''textarea'',
       sf_required = Some (True),
       sf_placeholder = None,
       sf_min = None,
       sf_max = None,
       sf_options = None\<rparr>,
       \<lparr>sf_key = lit ''contractor_name'',
       sf_label = [1060, 1048, 1054, 32, 1055, 1086, 1076, 1088, 1103, 1076, 1095, 1080, 1082, 1072],
       sf_type = lit ''text'',
       sf_required = Some (True),
       sf_placeholder = None,
       sf_min = None,
       sf_max = None,
       sf_options = None\<rparr>,
       \<lparr>sf_key = lit ''contractor_passport'',
       sf_label = [1055, 1072, 1089, 1087, 1086, 1088, 1090, 1085, 1099, 1077, 32, 1076, 1072, 1085,
         1085, 1099, 1077, 32, 1055, 1086, 1076, 1088, 1103, 1076, 1095, 1080, 1082, 1072],
       sf_type = lit ''text'',
       sf_required = Some (True),
       sf_placeholder = None,
       sf_min = None,
       sf_max = None,
       sf_options = None\<rparr>,
       \<lparr>sf_key = lit ''work_description'',
       sf_label = [1054, 1087, 1080, 1089, 1072, 1085, 1080, 1077, 32, 1088, 1072, 1073, 1086, 1090],
       sf_type = lit ''textarea'',
       sf_required = Some (True),
       sf_placeholder = Some ([1056, 1077, 1084, 1086, 1085, 1090, 32, 1086, 1092, 1080, 1089, 1085,
         1086, 1075, 1086, 32, 1087, 1086, 1084, 1077, 1097, 1077, 1085, 1080, 1103]),
       sf_min = None,
       sf_max = None,
       sf_options = None\<rparr>,
       \<lparr>sf_key = lit ''work_address'',
       sf_label = [1040, 1076, 1088, 1077, 1089, 32, 1074, 1099, 1087, 1086, 1083, 1085, 1077, 1085,
         1080, 1103, 32, 1088, 1072, 1073, 1086, 1090],
       sf_type = lit ''text'',
       sf_required = Some (True),
       sf_placeholder = None,
       sf_min = None,
       sf_max = None,
       sf_options = None\<rparr>,
       \<lparr>sf_key = lit ''start_date'',
       sf_label = [1044, 1072, 1090, 1072, 32, 1085, 1072, 1095, 1072, 1083, 1072, 32, 1088, 1072,
         1073, 1086, 1090],
       sf_type = lit ''date'',
       sf_required = Some (True),
       sf_placeholder = None,
       sf_min = None,
       sf_max = None,
       sf_options = None\<rparr>,
       \<lparr>sf_key = lit ''end_date'',
       sf_label = [1044, 1072, 1090, 1072, 32, 1086, 1082, 1086, 1085, 1095, 1072, 1085, 1080, 1103,
         32, 1088, 1072, 1073, 1086, 1090],
       sf_type = lit ''date'',
       sf_required = Some (True),
       sf_placeholder = None,
       sf_min = None,
       sf_max = None,
       sf_options = None\<rparr>,
       \<lparr>sf_key = lit ''contract_price'',
       sf_label = [1062, 1077, 1085, 1072, 32, 1076, 1086, 1075, 1086, 1074, 1086, 1088, 1072, 32, 40,
         1088, 1091, 1073, 46, 41],
       sf_type = lit ''number'',
       sf_required = Some (True),
       sf_placeholder = None,
       sf_min = Some (1000),
       sf_max = None,
       sf_options = None\<rparr>,
       \<lparr>sf_key = lit ''advance_payment'',
       sf_label = [1040, 1074, 1072, 1085, 1089, 32, 40, 1088, 1091, 1073, 46, 41],
       sf_type = lit ''number'',
       sf_required = Some (False),
       sf_placeholder = None,
       sf_min = Some (0),
       sf_max = None,
       sf_options = None\<rparr>,
       \<lparr>sf_key = lit ''payment_schedule'',
       sf_label = [1043, 1088, 1072, 1092, 1080, 1082, 32, 1087, 1083, 1072, 1090, 1077, 1078, 1077,
         1081],
       sf_type = lit ''textarea'',
       sf_required = Some (False),
       sf_placeholder = Some ([53, 48, 37, 32, 45, 32, 1072, 1074, 1072, 1085, 1089, 44, 32, 53, 48,
         37, 32, 45, 32, 1087, 1086, 1089, 1083, 1077, 32, 1087, 1088, 1080, 1077, 1084, 1082, 1080, 32,
         1088, 1072, 1073, 1086, 1090]),
       sf_min = None,
       sf_max = None,
       sf_options = None\<rparr>]\<rparr>"

definition template_data_6 :: seed_template where
  "template_data_6 =
    \<lparr>sd_name = [1054, 1073, 1088, 1072, 1079, 1077, 1094, 32, 1080, 1089, 1082, 1086, 1074, 1086, 1075, 1086,
       32, 1079, 1072, 1103, 1074, 1083, 1077, 1085, 1080, 1103, 32, 1086, 32, 1074, 1079, 1099, 1089,
       1082, 1072, 1085, 1080, 1080, 32, 1072, 1083, 1080, 1084, 1077, 1085, 1090, 1086, 1074, 32,
       1085, 1072, 32, 1088, 1077, 1073, 1077, 1085, 1082, 1072],
     sd_category = [1048, 1089, 1082, 1086, 1074, 1099, 1077, 32, 1079, 1072, 1103, 1074, 1083, 1077, 1085, 1080,
       1103],
     sd_type = [1048, 1089, 1082, 1086, 1074, 1086, 1077, 32, 1079, 1072, 1103, 1074, 1083, 1077, 1085, 1080,
       1077],
     sd_word_count = 52892,
     sd_description = Some ([1048, 1089, 1082, 1086, 1074, 1086, 1077, 32, 1079, 1072, 1103, 1074, 1083, 1077, 1085,
       1080, 1077, 32, 1086, 32, 1074, 1079, 1099, 1089, 1082, 1072, 1085, 1080, 1080, 32, 1072, 1083,
       1080, 1084, 1077, 1085, 1090, 1086, 1074, 32, 1085, 1072, 32, 1085, 1077, 1089, 1086, 1074,
       1077, 1088, 1096, 1077, 1085, 1085, 1086, 1083, 1077, 1090, 1085, 1077, 1075, 1086, 32, 1088,
       1077, 1073, 1077, 1085, 1082, 1072]),
     sd_fields =
      [\<lparr>sf_key = lit ''court_name'',
       sf_label = [1053, 1072, 1080, 1084, 1077, 1085, 1086, 1074, 1072, 1085, 1080, 1077, 32, 1089,
         1091, 1076, 1072],
       sf_type = lit ''text'',
       sf_required = Some (True),
       sf_placeholder = Some ([1052, 1080, 1088, 1086, 1074, 1086, 1081, 32, 1089, 1091, 1076, 32,
         1089, 1091, 1076, 1077, 1073, 1085, 1086, 1075, 1086, 32, 1091, 1095, 1072, 1089, 1090, 1082,
         1072, 32, 8470, 49]),
       sf_min = None,
       sf_max = None,
       sf_options = None\<rparr>,
       \<lparr>sf_key = lit ''plaintiff_name'',
       sf_label = [1060, 1048, 1054, 32, 1048, 1089, 1090, 1094, 1072, 32, 40, 1087, 1086, 1083, 1091,
         1095, 1072, 1090, 1077, 1083, 1103, 32, 1072, 1083, 1080, 1084, 1077, 1085, 1090, 1086, 1074,
         41],
       sf_type = lit ''text'',
       sf_required = Some (True),
       sf_placeholder = None,
       sf_min = None,
       sf_max = None,
       sf_options = None\<rparr>,
       \<lparr>sf_key = lit ''plaintiff_address'',
       sf_label = [1040, 1076, 1088, 1077, 1089, 32, 1048, 1089, 1090, 1094, 1072],
       sf_type = lit ''text'',
       sf_required = Some (True),
       sf_placeholder = None,
       sf_min = None,
       sf_max = None,
       sf_options = None\<rparr>,
       \<lparr>sf_key = lit ''plaintiff_phone'',
       sf_label = [1058, 1077, 1083, 1077, 1092, 1086, 1085, 32, 1048, 1089, 1090, 1094, 1072],
       sf_type = lit ''phone'',
       sf_required = Some (True),
       sf_placeholder = None,
       sf_min = None,
       sf_max = None,
       sf_options = None\<rparr>,
       \<lparr>sf_key = lit ''defendant_name'',
       sf_label = [1060, 1048, 1054, 32, 1054, 1090, 1074, 1077, 1090, 1095, 1080, 1082, 1072, 32, 40,
         1087, 1083, 1072, 1090, 1077, 1083, 1100, 1097, 1080, 1082, 1072, 32, 1072, 1083, 1080, 1084,
         1077, 1085, 1090, 1086, 1074, 41],
       sf_type = lit ''text'',
       sf_required = Some (True),
       sf_placeholder = None,
       sf_min = None,
       sf_max = None,
       sf_options = None\<rparr>,
       \<lparr>sf_key = lit ''defendant_address'',
       sf_label = [1040, 1076, 1088, 1077, 1089, 32, 1054, 1090, 1074, 1077, 1090, 1095, 1080, 1082,
         1072],
       sf_type = lit ''text'',
       sf_required = Some (True),
       sf_placeholder = None,
       sf_min = None,
       sf_max = None,
       sf_options = None\<rparr>,
       \<lparr>sf_key = lit ''child_name'',
       sf_label = [1060, 1048, 1054, 32, 1088, 1077, 1073, 1077, 1085, 1082, 1072],
       sf_type = lit ''text'',
       sf_required = Some (True),
       sf_placeholder = None,
       sf_min = None,
       sf_max = None,
       sf_options = None\<rparr>,
       \<lparr>sf_key = lit ''child_birthdate'',
       sf_label = [1044, 1072, 1090, 1072, 32, 1088, 1086, 1078, 1076, 1077, 1085, 1080, 1103, 32,
         1088, 1077, 1073, 1077, 1085, 1082, 1072],
       sf_type = lit ''date'',
       sf_required = Some (True),
       sf_placeholder = None,
       sf_min = None,
       sf_max = None,
       sf_options = None\<rparr>,
       \<lparr>sf_key = lit ''child_birth_certificate'',
       sf_label = [1057, 1074, 1080, 1076, 1077, 1090, 1077, 1083, 1100, 1089, 1090, 1074, 1086, 32,
         1086, 32, 1088, 1086, 1078, 1076, 1077, 1085, 1080, 1080],
       sf_type = lit ''text'',
       sf_required = Some (True),
       sf_placeholder = Some ([1089, 1077, 1088, 1080, 1103, 32, 73, 73, 45, 1040, 1041, 32, 8470, 49,
         50, 51, 52, 53, 54]),
       sf_min = None,
       sf_max = None,
       sf_options = None\<rparr>,
       \<lparr>sf_key = lit ''marriage_status'',
       sf_label = [1041, 1088, 1072, 1082, 32, 1079, 1072, 1088, 1077, 1075, 1080, 1089, 1090, 1088,
         1080, 1088, 1086, 1074, 1072, 1085],
       sf_type = lit ''boolean'',
       sf_required = Some (True),
       sf_placeholder = None,
       sf_min = None,
       sf_max = None,
       sf_options = None\<rparr>,
       \<lparr>sf_key = lit ''alimony_amount'',
       sf_label = [1056, 1072, 1079, 1084, 1077, 1088, 32, 1072, 1083, 1080, 1084, 1077, 1085, 1090,
         1086, 1074],
       sf_type = lit ''select'',
       sf_required = Some (True),
       sf_placeholder = None,
       sf_min = None,
       sf_max = None,
       sf_options = Some ([[49, 47, 52, 32, 1079, 1072, 1088, 1072, 1073, 1086, 1090, 1082, 1072], [49,
         47, 51, 32, 1079, 1072, 1088, 1072, 1073, 1086, 1090, 1082, 1072], [49, 47, 50, 32, 1079, 1072,
         1088, 1072, 1073, 1086, 1090, 1082, 1072], [1058, 1074, 1077, 1088, 1076, 1072, 1103, 32, 1076,
         1077, 1085, 1077, 1078, 1085, 1072, 1103, 32, 1089, 1091, 1084, 1084, 1072]])\<rparr>,
       \<lparr>sf_key = lit ''request'',
       sf_label = [1055, 1088, 1086, 1096, 1091, 32, 1074, 1079, 1099, 1089, 1082, 1072, 1090, 1100],
       sf_type = lit ''textarea'',
       sf_required = Some (True),
       sf_placeholder = Some ([1042, 1079, 1099, 1089, 1082, 1072, 1090, 1100, 32, 1089, 32, 1054,
         1090, 1074, 1077, 1090, 1095, 1080, 1082, 1072, 32, 1072, 1083, 1080, 1084, 1077, 1085, 1090,
         1099, 32, 1085, 1072, 32, 1089, 1086, 1076, 1077, 1088, 1078, 1072, 1085, 1080, 1077, 32, 1088,
         1077, 1073, 1077, 1085, 1082, 1072, 46, 46, 46]),
       sf_min = None,
       sf_max = None,
       sf_options = None\<rparr>]\<rparr>"

definition template_data_7 :: seed_template where
  "template_data_7 =
    \<lparr>sd_name = [1054, 1073, 1088, 1072, 1079, 1077, 1094, 32, 1076, 1086, 1074, 1077, 1088, 1077, 1085, 1085,
       1086, 1089, 1090, 1080, 32, 1074, 32, 1085, 1072, 1083, 1086, 1075, 1086, 1074, 1091, 1102, 32,
       1086, 1090, 32, 1102, 1088, 1080, 1076, 1080, 1095, 1077, 1089, 1082, 1086, 1075, 1086, 32,
       1083, 1080, 1094, 1072],
     sd_category = [1044, 1086, 1074, 1077, 1088, 1077, 1085, 1085, 1086, 1089, 1090, 1080],
     sd_type = [1044, 1086, 1074, 1077, 1088, 1077, 1085, 1085, 1086, 1089, 1090, 1100],
     sd_word_count = 7894,
     sd_description = Some ([1044, 1086, 1074, 1077, 1088, 1077, 1085, 1085, 1086, 1089, 1090, 1100, 32, 1085, 1072,
       32, 1087, 1088, 1077, 1076, 1089, 1090, 1072, 1074, 1083, 1077, 1085, 1080, 1077, 32, 1080,
       1085, 1090, 1077, 1088, 1077, 1089, 1086, 1074, 32, 1082, 1086, 1084, 1087, 1072, 1085, 1080,
       1080, 32, 1074, 32, 1085, 1072, 1083, 1086, 1075, 1086, 1074, 1086, 1081, 32, 1080, 1085, 1089,
       1087, 1077, 1082, 1094, 1080, 1080]),
     sd_fields =
      [\<lparr>sf_key = lit ''company_name'',
       sf_label = [1053, 1072, 1080, 1084, 1077, 1085, 1086, 1074, 1072, 1085, 1080, 1077, 32, 1086,
         1088, 1075, 1072, 1085, 1080, 1079, 1072, 1094, 1080, 1080],
       sf_type = lit ''text'',
       sf_required = Some (True),
       sf_placeholder = Some ([1054, 1054, 1054, 32, 34, 1042, 1077, 1082, 1090, 1086, 1088, 34]),
       sf_min = None,
       sf_max = None,
       sf_options = None\<rparr>,
       \<lparr>sf_key = lit ''company_details'',
       sf_label = [1056, 1077, 1082, 1074, 1080, 1079, 1080, 1090, 1099, 32, 1086, 1088, 1075, 1072,
         1085, 1080, 1079, 1072, 1094, 1080, 1080],
       sf_type = lit ''textarea'',
       sf_required = Some (True),
       sf_placeholder = Some ([1048, 1053, 1053, 32, 49, 50, 51, 52, 53, 54, 55, 56, 57, 48, 44, 32,
         1054, 1043, 1056, 1053, 32, 49, 50, 51, 52, 53, 54, 55, 56, 57, 48, 49, 50, 51, 44, 32, 1072,
         1076, 1088, 1077, 1089, 58, 32, 1075, 46, 32, 1052, 1086, 1089, 1082, 1074, 1072, 46, 46, 46]),
       sf_min = None,
       sf_max = None,
       sf_options = None\<rparr>,
       \<lparr>sf_key = lit ''director_name'',
       sf_label = [1060, 1048, 1054, 32, 1088, 1091, 1082, 1086, 1074, 1086, 1076, 1080, 1090, 1077,
         1083, 1103],
       sf_type = lit ''text'',
       sf_required = Some (True),
       sf_placeholder = Some ([1043, 1077, 1085, 1077, 1088, 1072, 1083, 1100, 1085, 1099, 1081, 32,
         1076, 1080, 1088, 1077, 1082, 1090, 1086, 1088, 32, 1048, 1074, 1072, 1085, 1086, 1074, 32,
         1048, 46, 1048, 46]),
       sf_min = None,
       sf_max = None,
       sf_options = None\<rparr>,
       \<lparr>sf_key = lit ''trustee_name'',
       sf_label = [1060, 1048, 1054, 32, 1076, 1086, 1074, 1077, 1088, 1077, 1085, 1085, 1086, 1075,
         1086, 32, 1083, 1080, 1094, 1072],
       sf_type = lit ''text'',
       sf_required = Some (True),
       sf_placeholder = None,
       sf_min = None,
       sf_max = None,
       sf_options = None\<rparr>,
       \<lparr>sf_key = lit ''trustee_passport'',
       sf_label = [1055, 1072, 1089, 1087, 1086, 1088, 1090, 1085, 1099, 1077, 32, 1076, 1072, 1085,
         1085, 1099, 1077, 32, 1076, 1086, 1074, 1077, 1088, 1077, 1085, 1085, 1086, 1075, 1086, 32,
         1083, 1080, 1094, 1072],
       sf_type = lit ''text'',
       sf_required = Some (True),
       sf_placeholder = None,
       sf_min = None,
       sf_max = None,
       sf_options = None\<rparr>,
       \<lparr>sf_key = lit ''tax_office'',
       sf_label = [1053, 1072, 1080, 1084, 1077, 1085, 1086, 1074, 1072, 1085, 1080, 1077, 32, 1085,
         1072, 1083, 1086, 1075, 1086, 1074, 1086, 1081, 32, 1080, 1085, 1089, 1087, 1077, 1082, 1094,
         1080, 1080],
       sf_type = lit ''text'',
       sf_required = Some (True),
       sf_placeholder = Some ([1048, 1060, 1053, 1057, 32, 1056, 1086, 1089, 1089, 1080, 1080, 32,
         8470, 49, 32, 1087, 1086, 32, 1075, 46, 32, 1052, 1086, 1089, 1082, 1074, 1077]),
       sf_min = None,
       sf_max = None,
       sf_options = None\<rparr>,
       \<lparr>sf_key = lit ''purpose'',
       sf_label = [1062, 1077, 1083, 1100, 32, 1076, 1086, 1074, 1077, 1088, 1077, 1085, 1085, 1086,
         1089, 1090, 1080],
       sf_type = lit ''textarea'',
       sf_required = Some (True),
       sf_placeholder = Some ([1055, 1088, 1077, 1076, 1089, 1090, 1072, 1074, 1083, 1103, 1090, 1100,
         32, 1080, 1085, 1090, 1077, 1088, 1077, 1089, 1099, 32, 1086, 1088, 1075, 1072, 1085, 1080,
         1079, 1072, 1094, 1080, 1080, 44, 32, 1087, 1086, 1076, 1072, 1074, 1072, 1090, 1100, 32, 1076,
         1086, 1082, 1091, 1084, 1077, 1085, 1090, 1099, 44, 32, 1087, 1086, 1083, 1091, 1095, 1072,
         1090, 1100, 32, 1076, 1086, 1082, 1091, 1084, 1077, 1085, 1090, 1099, 46, 46, 46]),
       sf_min = None,
       sf_max = None,
       sf_options = None\<rparr>,
       \<lparr>sf_key = lit ''validity_period'',
       sf_label = [1057, 1088, 1086, 1082, 32, 1076, 1077, 1081, 1089, 1090, 1074, 1080, 1103, 32, 40,
         1084, 1077, 1089, 1103, 1094, 1077, 1074, 41],
       sf_type = lit ''number'',
       sf_required = Some (True),
       sf_placeholder = None,
       sf_min = Some (1),
       sf_max = Some (36),
       sf_options = None\<rparr>,
       \<lparr>sf_key = lit ''issue_date'',
       sf_label = [1044, 1072, 1090, 1072, 32, 1074, 1099, 1076, 1072, 1095, 1080, 32, 1076, 1086,
         1074, 1077, 1088, 1077, 1085, 1085, 1086, 1089, 1090, 1080],
       sf_type = lit ''date'',
       sf_required = Some (True),
       sf_placeholder = None,
       sf_min = None,
       sf_max = None,
       sf_options = None\<rparr>,
       \<lparr>sf_key = lit ''with_right_of_substitution'',
       sf_label = [1057, 32, 1087, 1088, 1072, 1074, 1086, 1084, 32, 1087, 1077, 1088, 1077, 1076,
         1086, 1074, 1077, 1088, 1080, 1103],
       sf_type = lit ''boolean'',
       sf_required = Some (False),
       sf_placeholder = None,
       sf_min = None,
       sf_max = None,
       sf_options = None\<rparr>]\<rparr>"

definition template_data_8 :: seed_template where
  "template_data_8 =
    \<lparr>sd_name = [1054, 1073, 1088, 1072, 1079, 1077, 1094, 32, 1088, 1072, 1089, 1090, 1086, 1088, 1078, 1077,
       1085, 1080, 1103, 32, 1076, 1086, 1075, 1086, 1074, 1086, 1088, 1072, 32, 1087, 1086, 32, 1089,
       1086, 1075, 1083, 1072, 1096, 1077, 1085, 1080, 1102, 32, 1089, 1090, 1086, 1088, 1086, 1085],
     sd_category = [1057, 1086, 1075, 1083, 1072, 1096, 1077, 1085, 1080, 1103, 32, 1080, 32, 1088, 1072, 1089,
       1090, 1086, 1088, 1078, 1077, 1085, 1080, 1103],
     sd_type = [1056, 1072, 1089, 1090, 1086, 1088, 1078, 1077, 1085, 1080, 1077],
     sd_word_count = 35118,
     sd_description = Some ([1057, 1086, 1075, 1083, 1072, 1096, 1077, 1085, 1080, 1077, 32, 1086, 32, 1088, 1072,
       1089, 1090, 1086, 1088, 1078, 1077, 1085, 1080, 1080, 32, 1076, 1086, 1075, 1086, 1074, 1086,
       1088, 1072, 32, 1087, 1086, 32, 1074, 1079, 1072, 1080, 1084, 1085, 1086, 1084, 1091, 32, 1089,
       1086, 1075, 1083, 1072, 1089, 1080, 1102, 32, 1089, 1090, 1086, 1088, 1086, 1085]),
     sd_fields =
      [\<lparr>sf_key = lit ''original_contract_number'',
       sf_label = [1053, 1086, 1084, 1077, 1088, 32, 1088, 1072, 1089, 1090, 1086, 1088, 1075, 1072,
         1077, 1084, 1086, 1075, 1086, 32, 1076, 1086, 1075, 1086, 1074, 1086, 1088, 1072],
       sf_type = lit ''text'',
       sf_required = Some (True),
       sf_placeholder = Some ([8470, 49, 50, 51, 32, 1086, 1090, 32, 48, 49, 46, 48, 49, 46, 50, 48,
         50, 51]),
       sf_min = None,
       sf_max = None,
       sf_options = None\<rparr>,
       \<lparr>sf_key = lit ''original_contract_date'',
       sf_label = [1044, 1072, 1090, 1072, 32, 1088, 1072, 1089, 1090, 1086, 1088, 1075, 1072, 1077,
         1084, 1086, 1075, 1086, 32, 1076, 1086, 1075, 1086, 1074, 1086, 1088, 1072],
       sf_type = lit ''date'',
       sf_required = Some (True),
       sf_placeholder = None,
       sf_min = None,
       sf_max = None,
       sf_options = None\<rparr>,
       \<lparr>sf_key = lit ''party1_name'',
       sf_label = [1053, 1072, 1080, 1084, 1077, 1085, 1086, 1074, 1072, 1085, 1080, 1077, 32, 1057,
         1090, 1086, 1088, 1086, 1085, 1099, 32, 49],
       sf_type = lit ''text'',
       sf_required = Some (True),
       sf_placeholder = None,
       sf_min = None,
       sf_max = None,
       sf_options = None\<rparr>,
       \<lparr>sf_key = lit ''party1_details'',
       sf_label = [1056, 1077, 1082, 1074, 1080, 1079, 1080, 1090, 1099, 32, 1057, 1090, 1086, 1088,
         1086, 1085, 1099, 32, 49],
       sf_type = lit ''textarea'',
       sf_required = Some (True),
       sf_placeholder = None,
       sf_min = None,
       sf_max = None,
       sf_options = None\<rparr>,
       \<lparr>sf_key = lit ''party2_name'',
       sf_label = [1053, 1072, 1080, 1084, 1077, 1085, 1086, 1074, 1072, 1085, 1080, 1077, 32, 1057,
         1090, 1086, 1088, 1086, 1085, 1099, 32, 50],
       sf_type = lit ''text'',
       sf_required = Some (True),
       sf_placeholder = None,
       sf_min = None,
       sf_max = None,
       sf_options = None\<rparr>,
       \<lparr>sf_key = lit ''party2_details'',
       sf_label = [1056, 1077, 1082, 1074, 1080, 1079, 1080, 1090, 1099, 32, 1057, 1090, 1086, 1088,
         1086, 1085, 1099, 32, 50],
       sf_type = lit ''textarea'',
       sf_required = Some (True),
       sf_placeholder = None,
       sf_min = None,
       sf_max = None,
       sf_options = None\<rparr>,
       \<lparr>sf_key = lit ''termination_date'',
       sf_label = [1044, 1072, 1090, 1072, 32, 1088, 1072, 1089, 1090, 1086, 1088, 1078, 1077, 1085,
         1080, 1103, 32, 1076, 1086, 1075, 1086, 1074, 1086, 1088, 1072],
       sf_type = lit ''date'',
       sf_required = Some (True),
       sf_placeholder = None,
       sf_min = None,
       sf_max = None,
       sf_options = None\<rparr>,
       \<lparr>sf_key = lit ''termination_reason'',
       sf_label = [1055, 1088, 1080, 1095, 1080, 1085, 1072, 32, 1088, 1072, 1089, 1090, 1086, 1088,
         1078, 1077, 1085, 1080, 1103],
       sf_type = lit ''textarea'',
       sf_required = Some (True),
       sf_placeholder = Some ([1055, 1086, 32, 1074, 1079, 1072, 1080, 1084, 1085, 1086, 1084, 1091,
         32, 1089, 1086, 1075, 1083, 1072, 1089, 1080, 1102, 32, 1089, 1090, 1086, 1088, 1086, 1085, 32,
         1074, 32, 1089, 1074, 1103, 1079, 1080, 32, 1089, 46, 46, 46]),
       sf_min = None,
       sf_max = None,
       sf_options = None\<rparr>,
       \<lparr>sf_key = lit ''mutual_settlements'',
       sf_label = [1042, 1079, 1072, 1080, 1084, 1086, 1088, 1072, 1089, 1095, 1077, 1090, 1099, 32,
         1087, 1088, 1086, 1080, 1079, 1074, 1077, 1076, 1077, 1085, 1099],
       sf_type = lit ''boolean'',
       sf_required = Some (True),
       sf_placeholder = None,
       sf_min = None,
       sf_max = None,
       sf_options = None\<rparr>,
       \<lparr>sf_key = lit ''no_claims'',
       sf_label = [1057, 1090, 1086, 1088, 1086, 1085, 1099, 32, 1087, 1088, 1077, 1090, 1077, 1085,
         1079, 1080, 1081, 32, 1076, 1088, 1091, 1075, 32, 1082, 32, 1076, 1088, 1091, 1075, 1091, 32,
         1085, 1077, 32, 1080, 1084, 1077, 1102, 1090],
       sf_type = lit ''boolean'',
       sf_required = Some (True),
       sf_placeholder = None,
       sf_min = None,
       sf_max = None,
       sf_options = None\<rparr>,
       \<lparr>sf_key = lit ''signature_date'',
       sf_label = [1044, 1072, 1090, 1072, 32, 1087, 1086, 1076, 1087, 1080, 1089, 1072, 1085, 1080,
         1103, 32, 1089, 1086, 1075, 1083, 1072, 1096, 1077, 1085, 1080, 1103],
       sf_type = lit ''date'',
       sf_required = Some (True),
       sf_placeholder = None,
       sf_min = None,
       sf_max = None,
       sf_options = None\<rparr>]\<rparr>"

definition template_data_9 :: seed_template where
  "template_data_9 =
    \<lparr>sd_name = [1054, 1073, 1088, 1072, 1079, 1077, 1094, 32, 1072, 1082, 1090, 1072, 32, 1087, 1088, 1080,
       1077, 1084, 1072, 45, 1087, 1077, 1088, 1077, 1076, 1072, 1095, 1080, 32, 1072, 1074, 1090,
       1086, 1084, 1086, 1073, 1080, 1083, 1103, 32, 40, 1087, 1088, 1086, 1089, 1090, 1086, 1081, 41],
     sd_category = [1040, 1082, 1090, 1099],
     sd_type = [1040, 1082, 1090],
     sd_word_count = 22754,
     sd_description = Some ([1040, 1082, 1090, 32, 1087, 1088, 1080, 1077, 1084, 1072, 45, 1087, 1077, 1088, 1077,
       1076, 1072, 1095, 1080, 32, 1090, 1088, 1072, 1085, 1089, 1087, 1086, 1088, 1090, 1085, 1086,
       1075, 1086, 32, 1089, 1088, 1077, 1076, 1089, 1090, 1074, 1072]),
     sd_fields =
      [\<lparr>sf_key = lit ''act_number'',
       sf_label = [1053, 1086, 1084, 1077, 1088, 32, 1072, 1082, 1090, 1072],
       sf_type = lit ''text'',
       sf_required = Some (True),
       sf_placeholder = Some ([1040, 1050, 1058, 45, 49]),
       sf_min = None,
       sf_max = None,
       sf_options = None\<rparr>,
       \<lparr>sf_key = lit ''act_date'',
       sf_label = [1044, 1072, 1090, 1072, 32, 1089, 1086, 1089, 1090, 1072, 1074, 1083, 1077, 1085,
         1080, 1103, 32, 1072, 1082, 1090, 1072],
       sf_type = lit ''date'',
       sf_required = Some (True),
       sf_placeholder = None,
       sf_min = None,
       sf_max = None,
       sf_options = None\<rparr>,
       \<lparr>sf_key = lit ''transferor_name'',
       sf_label = [1060, 1048, 1054, 32, 1087, 1077, 1088, 1077, 1076, 1072, 1102, 1097, 1077, 1075,
         1086],
       sf_type = lit ''text'',
       sf_required = Some (True),
       sf_placeholder = None,
       sf_min = None,
       sf_max = None,
       sf_options = None\<rparr>,
       \<lparr>sf_key = lit ''transferee_name'',
       sf_label = [1060, 1048, 1054, 32, 1087, 1088, 1080, 1085, 1080, 1084, 1072, 1102, 1097, 1077,
         1075, 1086],
       sf_type = lit ''text'',
       sf_required = Some (True),
       sf_placeholder = None,
       sf_min = None,
       sf_max = None,
       sf_options = None\<rparr>,
       \<lparr>sf_key = lit ''car_brand'',
       sf_label = [1052, 1072, 1088, 1082, 1072, 32, 1072, 1074, 1090, 1086, 1084, 1086, 1073, 1080,
         1083, 1103],
       sf_type = lit ''text'',
       sf_required = Some (True),
       sf_placeholder = None,
       sf_min = None,
       sf_max = None,
       sf_options = None\<rparr>,
       \<lparr>sf_key = lit ''car_model'',
       sf_label = [1052, 1086, 1076, 1077, 1083, 1100, 32, 1072, 1074, 1090, 1086, 1084, 1086, 1073,
         1080, 1083, 1103],
       sf_type = lit ''text'',
       sf_required = Some (True),
       sf_placeholder = None,
       sf_min = None,
       sf_max = None,
       sf_options = None\<rparr>,
       \<lparr>sf_key = lit ''car_year'',
       sf_label = [1043, 1086, 1076, 32, 1074, 1099, 1087, 1091, 1089, 1082, 1072],
       sf_type = lit ''number'',
       sf_required = Some (True),
       sf_placeholder = None,
       sf_min = None,
       sf_max = None,
       sf_options = None\<rparr>,
       \<lparr>sf_key = lit ''vin'',
       sf_label = [86, 73, 78, 32, 1085, 1086, 1084, 1077, 1088],
       sf_type = lit ''text'',
       sf_required = Some (True),
       sf_placeholder = None,
       sf_min = None,
       sf_max = None,
       sf_options = None\<rparr>,
       \<lparr>sf_key = lit ''state_number'',
       sf_label = [1043, 1086, 1089, 1091, 1076, 1072, 1088, 1089, 1090, 1074, 1077, 1085, 1085, 1099,
         1081, 32, 1085, 1086, 1084, 1077, 1088],
       sf_type = lit ''text'',
       sf_required = Some (True),
       sf_placeholder = None,
       sf_min = None,
       sf_max = None,
       sf_options = None\<rparr>,
       \<lparr>sf_key = lit ''mileage'',
       sf_label = [1055, 1088, 1086, 1073, 1077, 1075, 32, 40, 1082, 1084, 41],
       sf_type = lit ''number'',
       sf_required = Some (True),
       sf_placeholder = None,
       sf_min = Some (0),
       sf_max = None,
       sf_options = None\<rparr>,
       \<lparr>sf_key = lit ''condition_description'',
       sf_label = [1054, 1087, 1080, 1089, 1072, 1085, 1080, 1077, 32, 1089, 1086, 1089, 1090, 1086,
         1103, 1085, 1080, 1103],
       sf_type = lit ''textarea'',
       sf_required = Some (True),
       sf_placeholder = Some ([1040, 1074, 1090, 1086, 1084, 1086, 1073, 1080, 1083, 1100, 32, 1087,
         1077, 1088, 1077, 1076, 1072, 1085, 32, 1074, 32, 1080, 1089, 1087, 1088, 1072, 1074, 1085,
         1086, 1084, 32, 1090, 1077, 1093, 1085, 1080, 1095, 1077, 1089, 1082, 1086, 1084, 32, 1089,
         1086, 1089, 1090, 1086, 1103, 1085, 1080, 1080, 46, 46, 46]),
       sf_min = None,
       sf_max = None,
       sf_options = None\<rparr>,
       \<lparr>sf_key = lit ''documents_list'',
       sf_label = [1055, 1077, 1088, 1077, 1076, 1072, 1074, 1072, 1077, 1084, 1099, 1077, 32, 1076,
         1086, 1082, 1091, 1084, 1077, 1085, 1090, 1099],
       sf_type = lit ''textarea'',
       sf_required = Some (True),
       sf_placeholder = Some ([1055, 1058, 1057, 44, 32, 1057, 1058, 1057, 44, 32, 1082, 1083, 1102,
         1095, 1080, 32, 40, 50, 32, 1096, 1090, 46, 41, 44, 32, 1089, 1077, 1088, 1074, 1080, 1089,
         1085, 1072, 1103, 32, 1082, 1085, 1080, 1078, 1082, 1072, 46, 46, 46]),
       sf_min = None,
       sf_max = None,
       sf_options = None\<rparr>,
       \<lparr>sf_key = lit ''transfer_purpose'',
       sf_label = [1062, 1077, 1083, 1100, 32, 1087, 1077, 1088, 1077, 1076, 1072, 1095, 1080],
       sf_type = lit ''select'',
       sf_required = Some (True),
       sf_placeholder = None,
       sf_min = None,
       sf_max = None,
       sf_options = Some ([[1055, 1088, 1086, 1076, 1072, 1078, 1072], [1040, 1088, 1077, 1085, 1076,
         1072], [1061, 1088, 1072, 1085, 1077, 1085, 1080, 1077], [1056, 1077, 1084, 1086, 1085, 1090],
         [1044, 1088, 1091, 1075, 1086, 1077]])\<rparr>]\<rparr>"

definition template_data_10 :: seed_template where
  "template_data_10 =
    \<lparr>sd_name = [1054, 1073, 1088, 1072, 1079, 1077, 1094, 32, 1079, 1072, 1074, 1077, 1097, 1072, 1085, 1080,
       1103, 32, 1080, 1084, 1091, 1097, 1077, 1089, 1090, 1074, 1072, 32, 40, 1089, 32, 1087, 1086,
       1076, 1085, 1072, 1079, 1085, 1072, 1095, 1077, 1085, 1080, 1077, 1084, 32, 1085, 1072, 1089,
       1083, 1077, 1076, 1085, 1080, 1082, 1072, 41],
     sd_category = [1055, 1088, 1086, 1095, 1077, 1077],
     sd_type = [1055, 1088, 1086, 1095, 1077, 1077],
     sd_word_count = 3734,
     sd_description = Some ([1047, 1072, 1074, 1077, 1097, 1072, 1085, 1080, 1077, 32, 1089, 32, 1091, 1082, 1072,
       1079, 1072, 1085, 1080, 1077, 1084, 32, 1086, 1089, 1085, 1086, 1074, 1085, 1086, 1075, 1086,
       32, 1080, 32, 1087, 1086, 1076, 1085, 1072, 1079, 1085, 1072, 1095, 1077, 1085, 1085, 1086,
       1075, 1086, 32, 1085, 1072, 1089, 1083, 1077, 1076, 1085, 1080, 1082, 1072]),
     sd_fields =
      [\<lparr>sf_key = lit ''testator_name'',
       sf_label = [1060, 1048, 1054, 32, 1047, 1072, 1074, 1077, 1097, 1072, 1090, 1077, 1083, 1103],
       sf_type = lit ''text'',
       sf_required = Some (True),
       sf_placeholder = None,
       sf_min = None,
       sf_max = None,
       sf_options = None\<rparr>,
       \<lparr>sf_key = lit ''testator_passport'',
       sf_label = [1055, 1072, 1089, 1087, 1086, 1088, 1090, 1085, 1099, 1077, 32, 1076, 1072, 1085,
         1085, 1099, 1077, 32, 1047, 1072, 1074, 1077, 1097, 1072, 1090, 1077, 1083, 1103],
       sf_type = lit ''text'',
       sf_required = Some (True),
       sf_placeholder = None,
       sf_min = None,
       sf_max = None,
       sf_options = None\<rparr>,
       \<lparr>sf_key = lit ''testator_address'',
       sf_label = [1040, 1076, 1088, 1077, 1089, 32, 1047, 1072, 1074, 1077, 1097, 1072, 1090, 1077,
         1083, 1103],
       sf_type = lit ''text'',
       sf_required = Some (True),
       sf_placeholder = None,
       sf_min = None,
       sf_max = None,
       sf_options = None\<rparr>,
       \<lparr>sf_key = lit ''testator_birthdate'',
       sf_label = [1044, 1072, 1090, 1072, 32, 1088, 1086, 1078, 1076, 1077, 1085, 1080, 1103, 32,
         1047, 1072, 1074, 1077, 1097, 1072, 1090, 1077, 1083, 1103],
       sf_type = lit ''date'',
       sf_required = Some (True),
       sf_placeholder = None,
       sf_min = None,
       sf_max = None,
       sf_options = None\<rparr>,
       \<lparr>sf_key = lit ''notary_name'',
       sf_label = [1060, 1048, 1054, 32, 1085, 1086, 1090, 1072, 1088, 1080, 1091, 1089, 1072],
       sf_type = lit ''text'',
       sf_required = Some (True),
       sf_placeholder = None,
       sf_min = None,
       sf_max = None,
       sf_options = None\<rparr>,
       \<lparr>sf_key = lit ''notary_office'',
       sf_label = [1053, 1086, 1090, 1072, 1088, 1080, 1072, 1083, 1100, 1085, 1072, 1103, 32, 1082,
         1086, 1085, 1090, 1086, 1088, 1072],
       sf_type = lit ''text'',
       sf_required = Some (True),
       sf_placeholder = None,
       sf_min = None,
       sf_max = None,
       sf_options = None\<rparr>,
       \<lparr>sf_key = lit ''main_heir_name'',
       sf_label = [1060, 1048, 1054, 32, 1086, 1089, 1085, 1086, 1074, 1085, 1086, 1075, 1086, 32,
         1085, 1072, 1089, 1083, 1077, 1076, 1085, 1080, 1082, 1072],
       sf_type = lit ''text'',
       sf_required = Some (True),
       sf_placeholder = None,
       sf_min = None,
       sf_max = None,
       sf_options = None\<rparr>,
       \<lparr>sf_key = lit ''main_heir_relation'',
       sf_label = [1054, 1090, 1085, 1086, 1096, 1077, 1085, 1080, 1077, 32, 1082, 32, 1047, 1072,
         1074, 1077, 1097, 1072, 1090, 1077, 1083, 1102],
       sf_type = lit ''text'',
       sf_required = Some (True),
       sf_placeholder = Some ([1089, 1099, 1085, 44, 32, 1076, 1086, 1095, 1100, 44, 32, 1089, 1091,
         1087, 1088, 1091, 1075, 40, 1072, 41]),
       sf_min = None,
       sf_max = None,
       sf_options = None\<rparr>,
       \<lparr>sf_key = lit ''substitute_heir_name'',
       sf_label = [1060, 1048, 1054, 32, 1087, 1086, 1076, 1085, 1072, 1079, 1085, 1072, 1095, 1077,
         1085, 1085, 1086, 1075, 1086, 32, 1085, 1072, 1089, 1083, 1077, 1076, 1085, 1080, 1082, 1072],
       sf_type = lit ''text'',
       sf_required = Some (False),
       sf_placeholder = None,
       sf_min = None,
       sf_max = None,
       sf_options = None\<rparr>,
       \<lparr>sf_key = lit ''property_description'',
       sf_label = [1054, 1087, 1080, 1089, 1072, 1085, 1080, 1077, 32, 1079, 1072, 1074, 1077, 1097,
         1072, 1077, 1084, 1086, 1075, 1086, 32, 1080, 1084, 1091, 1097, 1077, 1089, 1090, 1074, 1072],
       sf_type = lit ''textarea'',
       sf_required = Some (True),
       sf_placeholder = Some ([1050, 1074, 1072, 1088, 1090, 1080, 1088, 1072, 44, 32, 1088, 1072,
         1089, 1087, 1086, 1083, 1086, 1078, 1077, 1085, 1085, 1072, 1103, 32, 1087, 1086, 32, 1072,
         1076, 1088, 1077, 1089, 1091, 46, 46, 46, 32, 1040, 1074, 1090, 1086, 1084, 1086, 1073, 1080,
         1083, 1100, 32, 1084, 1072, 1088, 1082, 1080, 46, 46, 46, 32, 1044, 1077, 1085, 1077, 1078,
         1085, 1099, 1077, 32, 1089, 1088, 1077, 1076, 1089, 1090, 1074, 1072, 46, 46, 46]),
       sf_min = None,
       sf_max = None,
       sf_options = None\<rparr>,
       \<lparr>sf_key = lit ''special_conditions'',
       sf_label = [1054, 1089, 1086, 1073, 1099, 1077, 32, 1091, 1089, 1083, 1086, 1074, 1080, 1103],
       sf_type = lit ''textarea'',
       sf_required = Some (False),
       sf_placeholder = Some ([1048, 1084, 1091, 1097, 1077, 1089, 1090, 1074, 1086, 32, 1085, 1077,
         32, 1087, 1086, 1076, 1083, 1077, 1078, 1080, 1090, 32, 1088, 1072, 1079, 1076, 1077, 1083,
         1091, 46, 46, 46, 32, 1053, 1072, 1089, 1083, 1077, 1076, 1085, 1080, 1082, 32, 1086, 1073,
         1103, 1079, 1091, 1077, 1090, 1089, 1103, 46, 46, 46]),
       sf_min = None,
       sf_max = None,
       sf_options = None\<rparr>,
       \<lparr>sf_key = lit ''execution_date'',
       sf_label = [1044, 1072, 1090, 1072, 32, 1089, 1086, 1089, 1090, 1072, 1074, 1083, 1077, 1085,
         1080, 1103, 32, 1079, 1072, 1074, 1077, 1097, 1072, 1085, 1080, 1103],
       sf_type = lit ''date'',
       sf_required = Some (True),
       sf_placeholder = None,
       sf_min = None,
       sf_max = None,
       sf_options = None\<rparr>]\<rparr>"

definition templates_data :: "seed_template list" where
  "templates_data =
    [template_data_1, template_data_2, template_data_3, template_data_4,
     template_data_5, template_data_6, template_data_7, template_data_8,
     template_data_9, template_data_10]"

definition seed_database :: "(json \<Rightarrow> ustr) \<Rightarrow> ustr \<Rightarrow> db \<Rightarrow> seed_response \<times> db" where
  "seed_database dumps now d = seed_with dumps now categories_seed templates_data d"

section \<open>Notions of the specification\<close>



text \<open>
  The INSERT of a template of the seed data succeeds: its category is one of the seeded
  names and its type passes the CHECK on \<open>doc_type\<close>.
\<close>

definition insertable :: "(ustr \<times> ustr) list \<Rightarrow> seed_template \<Rightarrow> bool" where
  "insertable cats t = (sd_category t \<in> set (map fst cats) \<and> sd_type t \<in> set doc_types)"

text \<open>The fields of a template that are inserted: those before the first that fails the CHECK.\<close>

definition accepted_fields :: "seed_template \<Rightarrow> seed_field list" where
  "accepted_fields t = takeWhile (\<lambda>f. sf_type f \<in> set field_types) (sd_fields t)"

text \<open>
  The rows of \<open>template_fields\<close> are stored in field order: along the table the ids grow,
  and so do the order indexes of the rows of one template; no row has an id or a
  template id beyond the largest handed out.
\<close>

definition field_before :: "template_field \<Rightarrow> template_field \<Rightarrow> bool" where
  "field_before x y =
     (fld_id x \<le> fld_id y \<and>
      (fld_template_id x = fld_template_id y \<longrightarrow> fld_order_index x \<le> fld_order_index y))"

definition stored_in_order :: "db \<Rightarrow> bool" where
  "stored_in_order d =
     (sorted_wrt field_before (template_fields d) \<and>
      list_all (\<lambda>f. fld_id f \<le> seq_template_fields d \<and> fld_template_id f \<le> seq_templates d)
        (template_fields d))"

section \<open>A small database for concrete evaluations\<close>

definition contract :: ustr where
  "contract = [1044, 1086, 1075, 1086, 1074, 1086, 1088]"

definition act :: ustr where
  "act = [1040, 1082, 1090]"


definition db_example :: db where
  "db_example =
     \<lparr>categories =
        [\<lparr>cat_id = 1, cat_name = lit ''Contracts'', cat_description = Some (lit ''Legal contracts''),
          cat_created_at = lit ''2024-01-01 10:00:00''\<rparr>,
         \<lparr>cat_id = 2, cat_name = lit ''Acts'', cat_description = None,
          cat_created_at = lit ''2024-01-01 10:00:00''\<rparr>],
      templates =
        [\<lparr>tpl_id = 1, tpl_category_id = Some 1, tpl_name = lit ''abc'',
          tpl_description = Some (lit ''Lease''), tpl_doc_type = Some contract,
          tpl_word_count = Some 100, tpl_popularity = 0,
          tpl_created_at = lit ''2024-01-01 10:00:00''\<rparr>,
         \<lparr>tpl_id = 2, tpl_category_id = Some 1, tpl_name = lit ''Sale'',
          tpl_description = Some (lit ''Car sale 100%''), tpl_doc_type = Some contract,
          tpl_word_count = Some 200, tpl_popularity = 5,
          tpl_created_at = lit ''2024-01-01 10:00:00''\<rparr>,
         \<lparr>tpl_id = 3, tpl_category_id = Some 2, tpl_name = contract,
          tpl_description = None, tpl_doc_type = Some act,
          tpl_word_count = Some 300, tpl_popularity = 5,
          tpl_created_at = lit ''2024-01-01 10:00:00''\<rparr>],
      template_fields =
        [\<lparr>fld_id = 1, fld_template_id = 1, fld_field_key = lit ''landlord'',
          fld_field_label = lit ''Landlord'', fld_field_type = lit ''text'', fld_is_required = 1,
          fld_min_value = None, fld_max_value = None, fld_format = None,
          fld_placeholder = Some (lit ''Name''), fld_options = None, fld_order_index = 0\<rparr>,
         \<lparr>fld_id = 2, fld_template_id = 1, fld_field_key = lit ''rent'',
          fld_field_label = lit ''Rent'', fld_field_type = lit ''number'', fld_is_required = 1,
          fld_min_value = Some 1000, fld_max_value = Some 1000000, fld_format = None,
          fld_placeholder = None, fld_options = None, fld_order_index = 1\<rparr>,
         \<lparr>fld_id = 3, fld_template_id = 1, fld_field_key = lit ''payment'',
          fld_field_label = lit ''Payment'', fld_field_type = lit ''select'', fld_is_required = 0,
          fld_min_value = None, fld_max_value = None, fld_format = None,
          fld_placeholder = None, fld_options = Some (lit ''[\"cash\"]''), fld_order_index = 2\<rparr>],
      filled_documents =
        [\<lparr>doc_id = 1, doc_template_id = 1, doc_user_id = None, doc_document_data = lit ''{}'',
          doc_created_at = lit ''2024-01-02 09:00:00'', doc_status = lit ''generated''\<rparr>,
         \<lparr>doc_id = 2, doc_template_id = 9, doc_user_id = None, doc_document_data = lit ''{}'',
          doc_created_at = lit ''2024-01-03 09:00:00'', doc_status = lit ''generated''\<rparr>,
         \<lparr>doc_id = 3, doc_template_id = 2, doc_user_id = None, doc_document_data = lit ''{}'',
          doc_created_at = lit ''2024-01-04 09:00:00'', doc_status = lit ''generated''\<rparr>],
      seq_categories = 2, seq_templates = 9, seq_template_fields = 3,
      seq_filled_documents = 3\<rparr>"

text \<open>Two request bodies for template 1: one complete, one with an empty and an absent field.\<close>

definition request_complete :: gen_request where
  "request_complete =
     \<lparr>gr_template_id = Some 1,
      gr_fields = Some [(lit ''landlord'', JStr (lit ''Ann'')), (lit ''rent'', JInt 1500)]\<rparr>"

definition request_incomplete :: gen_request where
  "request_incomplete =
     \<lparr>gr_template_id = Some 1,
      gr_fields = Some [(lit ''landlord'', JStr []), (lit ''payment'', JStr (lit ''cash''))]\<rparr>"

section \<open>Template detail: the counter and the response\<close>

lemma template_by_id_bump:
  "template_by_id (bump_popularity tid d) tid =
     map_option (\<lambda>t. t\<lparr>tpl_popularity := tpl_popularity t + 1\<rparr>) (template_by_id d tid)"
proof -
  have "find (\<lambda>t. tpl_id t = tid)
          (map (\<lambda>t. if tpl_id t = tid then t\<lparr>tpl_popularity := tpl_popularity t + 1\<rparr> else t) xs) =
        map_option (\<lambda>t. t\<lparr>tpl_popularity := tpl_popularity t + 1\<rparr>) (find (\<lambda>t. tpl_id t = tid) xs)"
    for xs
    by (induction xs) auto
  then show ?thesis
    by (simp add: template_by_id_def bump_popularity_def)
qed

lemma category_name_bump [simp]:
  "category_name (bump_popularity tid d) t = category_name d t"
  by (simp add: category_name_def bump_popularity_def split: option.split)

lemma category_name_popularity [simp]:
  "category_name d (t\<lparr>tpl_popularity := p\<rparr>) = category_name d t"
  by (simp add: category_name_def)

lemma bump_other_tables:
  "categories (bump_popularity tid d) = categories d"
  "template_fields (bump_popularity tid d) = template_fields d"
  "filled_documents (bump_popularity tid d) = filled_documents d"
  by (simp_all add: bump_popularity_def)

lemma bump_other_templates:
  "filter (\<lambda>u. tpl_id u \<noteq> tid) (templates (bump_popularity tid d)) =
   filter (\<lambda>u. tpl_id u \<noteq> tid) (templates d)"
proof -
  have "filter (\<lambda>u. tpl_id u \<noteq> tid)
          (map (\<lambda>t. if tpl_id t = tid then t\<lparr>tpl_popularity := tpl_popularity t + 1\<rparr> else t) xs) =
        filter (\<lambda>u. tpl_id u \<noteq> tid) xs" for xs
    by (induction xs) auto
  then show ?thesis by (simp add: bump_popularity_def)
qed

lemma detail_found:
  assumes "template_by_id d tid = Some t"
  shows "get_template_detail d tid =
     (Inr \<lparr>td_id = tpl_id t, td_name = tpl_name t, td_description = tpl_description t,
            td_type = tpl_doc_type t, td_category = category_name d t,
            td_category_id = tpl_category_id t, td_word_count = tpl_word_count t,
            td_popularity = tpl_popularity t, td_created_at = tpl_created_at t\<rparr>,
      bump_popularity tid d)"
  using assms by (simp add: get_template_detail_def)

lemma after_details_row:
  assumes "template_by_id d tid = Some t"
  shows "template_by_id (after_details n tid d) tid =
           Some (t\<lparr>tpl_popularity := tpl_popularity t + int n\<rparr>)"
  using assms
proof (induction n arbitrary: d t)
  case 0
  then show ?case by simp
next
  case (Suc n)
  have step: "template_by_id (bump_popularity tid d) tid =
                Some (t\<lparr>tpl_popularity := tpl_popularity t + 1\<rparr>)"
    using Suc.prems by (simp add: template_by_id_bump)
  have "snd (get_template_detail d tid) = bump_popularity tid d"
    using Suc.prems by (simp add: detail_found)
  then show ?case
    using Suc.IH [OF step] by (simp add: add.assoc add.commute)
qed

lemma after_details_categories:
  "categories (after_details n tid d) = categories d"
proof (induction n arbitrary: d)
  case 0
  then show ?case by simp
next
  case (Suc n)
  have "categories (snd (get_template_detail d tid)) = categories d"
    by (simp add: get_template_detail_def bump_other_tables split: option.split)
  then show ?case using Suc.IH by simp
qed

lemma category_name_after_details:
  "category_name (after_details n tid d) t = category_name d t"
  by (simp add: category_name_def after_details_categories split: option.split)

text \<open>
  C1, as the code has it. When the template exists, each detail request adds exactly one
  to its stored counter and leaves every other template and table as it was, so after
  \<open>n\<close> requests the stored counter is the original plus \<open>n\<close>. The response is the full
  record, and its popularity is the value read before the update: the request that
  follows \<open>n\<close> earlier ones reports the original plus \<open>n\<close>.
\<close>

theorem get_template_detail_counts:
  assumes "template_by_id d tid = Some t"
  shows
    "template_by_id (snd (get_template_detail d tid)) tid =
       Some (t\<lparr>tpl_popularity := tpl_popularity t + 1\<rparr>) \<and>
     filter (\<lambda>u. tpl_id u \<noteq> tid) (templates (snd (get_template_detail d tid))) =
       filter (\<lambda>u. tpl_id u \<noteq> tid) (templates d) \<and>
     categories (snd (get_template_detail d tid)) = categories d \<and>
     template_fields (snd (get_template_detail d tid)) = template_fields d \<and>
     filled_documents (snd (get_template_detail d tid)) = filled_documents d \<and>
     template_by_id (after_details n tid d) tid =
       Some (t\<lparr>tpl_popularity := tpl_popularity t + int n\<rparr>) \<and>
     fst (get_template_detail (after_details n tid d) tid) =
       Inr \<lparr>td_id = tpl_id t, td_name = tpl_name t, td_description = tpl_description t,
            td_type = tpl_doc_type t, td_category = category_name d t,
            td_category_id = tpl_category_id t, td_word_count = tpl_word_count t,
            td_popularity = tpl_popularity t + int n, td_created_at = tpl_created_at t\<rparr>"
proof -
  have s: "snd (get_template_detail d tid) = bump_popularity tid d"
    using assms by (simp add: detail_found)
  have one: "template_by_id (snd (get_template_detail d tid)) tid =
       Some (t\<lparr>tpl_popularity := tpl_popularity t + 1\<rparr>)"
    using assms by (simp add: s template_by_id_bump)
  have others: "filter (\<lambda>u. tpl_id u \<noteq> tid) (templates (snd (get_template_detail d tid))) =
         filter (\<lambda>u. tpl_id u \<noteq> tid) (templates d)"
    by (simp add: s bump_other_templates)
  have tables: "categories (snd (get_template_detail d tid)) = categories d"
    "template_fields (snd (get_template_detail d tid)) = template_fields d"
    "filled_documents (snd (get_template_detail d tid)) = filled_documents d"
    by (simp_all add: s bump_other_tables)
  have row: "template_by_id (after_details n tid d) tid =
           Some (t\<lparr>tpl_popularity := tpl_popularity t + int n\<rparr>)"
    by (rule after_details_row [OF assms])
  have resp: "fst (get_template_detail (after_details n tid d) tid) =
           Inr \<lparr>td_id = tpl_id t, td_name = tpl_name t, td_description = tpl_description t,
                td_type = tpl_doc_type t, td_category = category_name d t,
                td_category_id = tpl_category_id t, td_word_count = tpl_word_count t,
                td_popularity = tpl_popularity t + int n, td_created_at = tpl_created_at t\<rparr>"
    by (simp add: detail_found [OF row] category_name_after_details)
  from one others tables row resp show ?thesis by simp
qed

theorem get_template_detail_counts_witness:
  "template_by_id db_example 1 = Some (hd (templates db_example)) \<and>
   template_by_id (after_details 3 1 db_example) 1 =
     Some ((hd (templates db_example))\<lparr>tpl_popularity := 3\<rparr>) \<and>
   map_sum id td_popularity (fst (get_template_detail (after_details 3 1 db_example) 1)) = Inr 3"
proof -
  have h: "template_by_id db_example 1 = Some (hd (templates db_example))"
    by (simp add: template_by_id_def db_example_def)
  have p: "tpl_popularity (hd (templates db_example)) = 0"
    by (simp add: db_example_def)
  show ?thesis
    using h get_template_detail_counts [OF h, of 3] by (simp add: p)
qed

text \<open>
  C1 as the specification states it fails: on the example database the first detail
  request for template 1 stores popularity 1 and reports popularity 0.
\<close>

theorem detail_reports_post_increment_counterexample:
  "map_option tpl_popularity (template_by_id (snd (get_template_detail db_example 1)) 1) = Some 1 \<and>
   map_sum id td_popularity (fst (get_template_detail db_example 1)) = Inr 0"
  by (simp add: get_template_detail_def template_by_id_def bump_popularity_def db_example_def)



section \<open>Template listing: filters and order\<close>

text \<open>
  C10. With \<open>category_id=0\<close> the category condition is not added, so the listing is the
  one of the same request without \<open>category_id\<close>.
\<close>

theorem category_id_zero_is_no_filter:
  "get_all_templates d (Some 0) doc_type search = get_all_templates d None doc_type search"
  by (simp add: get_all_templates_def selected_templates_def category_cond_def)

theorem category_id_zero_is_no_filter_witness:
  "get_all_templates db_example (Some 0) None [] = get_all_templates db_example None None [] \<and>
   map ts_id (get_all_templates db_example (Some 0) None []) = [2, 3, 1]"
proof -
  have "map ts_id (get_all_templates db_example None None []) = [2, 3, 1]"
    by (simp add: get_all_templates_def selected_templates_def category_cond_def
        doc_type_cond_def search_cond_def listing_key_def db_example_def lit_def less_eq_prod_def
        summary_def contract_def)
  then show ?thesis
    using category_id_zero_is_no_filter [of db_example None "[]"] by simp
qed

subsection \<open>What the search pattern matches\<close>
















section \<open>Category listing: the counts\<close>

text \<open>
  C8. The category listing has every category once, ordered by name, and the
  \<open>template_count\<close> of each is the number of template rows whose \<open>category_id\<close> is that
  category's id.
\<close>

theorem get_categories_counts:
  "sorted (map cr_name (get_categories d)) \<and>
   mset (map (\<lambda>r. (cr_id r, cr_name r, cr_description r)) (get_categories d)) =
     mset (map (\<lambda>c. (cat_id c, cat_name c, cat_description c)) (categories d)) \<and>
   list_all
     (\<lambda>r. cr_template_count r =
            int (length (filter (\<lambda>t. tpl_category_id t = Some (cr_id r)) (templates d))))
     (get_categories d)"
proof -
  have names: "map cr_name (get_categories d) = map cat_name (sort_key cat_name (categories d))"
    by (simp add: get_categories_def comp_def)
  have srt: "sorted (map cr_name (get_categories d))"
    unfolding names by (rule sorted_sort_key)
  have "map (\<lambda>r. (cr_id r, cr_name r, cr_description r)) (get_categories d) =
        map (\<lambda>c. (cat_id c, cat_name c, cat_description c)) (sort_key cat_name (categories d))"
    by (simp add: get_categories_def comp_def)
  then have all_once:
    "mset (map (\<lambda>r. (cr_id r, cr_name r, cr_description r)) (get_categories d)) =
     mset (map (\<lambda>c. (cat_id c, cat_name c, cat_description c)) (categories d))"
    by (simp only: mset_map mset_sort)
  have cnt: "list_all
     (\<lambda>r. cr_template_count r =
            int (length (filter (\<lambda>t. tpl_category_id t = Some (cr_id r)) (templates d))))
     (get_categories d)"
    by (simp add: get_categories_def list_all_iff template_count_def)
  from srt all_once cnt show ?thesis by simp
qed

theorem get_categories_counts_witness:
  "map cr_name (get_categories db_example) = [lit ''Acts'', lit ''Contracts''] \<and>
   map cr_template_count (get_categories db_example) = [1, 2] \<and>
   sorted (map cr_name (get_categories db_example))"
proof -
  have "map cr_name (get_categories db_example) = [lit ''Acts'', lit ''Contracts'']"
    "map cr_template_count (get_categories db_example) = [1, 2]"
    by (simp_all add: get_categories_def template_count_def db_example_def lit_def)
  then show ?thesis
    using get_categories_counts [of db_example] by simp
qed

section \<open>Template fields: the entries\<close>

lemma field_entry_parts:
  "fd_key (field_entry loads f) = fld_field_key f"
  "fd_label (field_entry loads f) = fld_field_label f"
  "fd_type (field_entry loads f) = fld_field_type f"
  "fd_required (field_entry loads f) = (fld_is_required f \<noteq> 0)"
  "fd_min (field_entry loads f) = fld_min_value f"
  "fd_max (field_entry loads f) = fld_max_value f"
  by (simp_all add: field_entry_def)

lemma field_entry_placeholder:
  "fd_placeholder (field_entry loads f) = (case fld_placeholder f of None \<Rightarrow> [] | Some p \<Rightarrow> p)"
  by (simp add: field_entry_def)

lemma field_entry_format:
  "fd_format (field_entry loads f) = Some x \<longleftrightarrow> fld_format f = Some x \<and> x \<noteq> []"
  by (auto simp: field_entry_def split: option.splits)

lemma field_entry_options:
  "fd_options (field_entry loads f) =
     (if fld_options f = None \<or> fld_options f = Some [] then None
      else Some (case loads (the (fld_options f)) of Some v \<Rightarrow> v | None \<Rightarrow> JArr []))"
  by (auto simp: field_entry_def split: option.splits)

text \<open>
  C5. For an existing template the fields endpoint returns the template's name and the
  entries of exactly its field rows, ordered by \<open>order_index\<close> and then \<open>id\<close>. Each entry has
  the key, label, type and required flag of its row and the placeholder, or the empty
  string when the row has none; \<open>min\<close> and \<open>max\<close> are present when the row has them,
  \<open>format\<close> when it is a non-empty string, \<open>options\<close> when the stored text is non-empty, and
  then it is the parsed text, or the empty list when parsing fails.
\<close>

theorem get_template_fields_entries:
  assumes "template_by_id d tid = Some t"
  shows
    "(\<exists>fs. get_template_fields loads d tid =
             Inr \<lparr>fr_template_id = tid, fr_template_name = tpl_name t,
                  fr_fields = map (field_entry loads) fs\<rparr> \<and>
           mset fs = filter_mset (\<lambda>f. fld_template_id f = tid) (mset (template_fields d)) \<and>
           sorted (map (\<lambda>f. (fld_order_index f, fld_id f)) fs)) \<and>
     fd_key (field_entry loads f) = fld_field_key f \<and>
     fd_label (field_entry loads f) = fld_field_label f \<and>
     fd_type (field_entry loads f) = fld_field_type f \<and>
     fd_required (field_entry loads f) = (fld_is_required f \<noteq> 0) \<and>
     fd_placeholder (field_entry loads f) =
       (case fld_placeholder f of None \<Rightarrow> [] | Some p \<Rightarrow> p) \<and>
     fd_min (field_entry loads f) = fld_min_value f \<and>
     fd_max (field_entry loads f) = fld_max_value f \<and>
     (fd_format (field_entry loads f) = Some x \<longleftrightarrow> fld_format f = Some x \<and> x \<noteq> []) \<and>
     fd_options (field_entry loads f) =
       (if fld_options f = None \<or> fld_options f = Some [] then None
        else Some (case loads (the (fld_options f)) of Some v \<Rightarrow> v | None \<Rightarrow> JArr []))"
proof -
  let ?fs = "sort_key field_order (fields_of d tid)"
  have r: "get_template_fields loads d tid =
             Inr \<lparr>fr_template_id = tid, fr_template_name = tpl_name t,
                  fr_fields = map (field_entry loads) ?fs\<rparr>"
    using assms by (simp add: get_template_fields_def)
  have m: "mset ?fs = filter_mset (\<lambda>f. fld_template_id f = tid) (mset (template_fields d))"
    by (simp add: fields_of_def)
  have "sorted (map field_order ?fs)"
    by (rule sorted_sort_key)
  then have s: "sorted (map (\<lambda>f. (fld_order_index f, fld_id f)) ?fs)"
    by (simp add: field_order_def [abs_def])
  from r m s have ex: "\<exists>fs. get_template_fields loads d tid =
             Inr \<lparr>fr_template_id = tid, fr_template_name = tpl_name t,
                  fr_fields = map (field_entry loads) fs\<rparr> \<and>
           mset fs = filter_mset (\<lambda>f. fld_template_id f = tid) (mset (template_fields d)) \<and>
           sorted (map (\<lambda>f. (fld_order_index f, fld_id f)) fs)"
    by blast
  show ?thesis
    using ex field_entry_parts [of loads f] field_entry_placeholder [of loads f]
      field_entry_format [of loads f x] field_entry_options [of loads f]
    by (simp only: simp_thms)
qed

theorem get_template_fields_entries_witness:
  "template_by_id db_example 1 = Some (hd (templates db_example)) \<and>
   map fd_key (fr_fields (projr (get_template_fields (\<lambda>s. None) db_example 1))) =
     [lit ''landlord'', lit ''rent'', lit ''payment''] \<and>
   fd_options (field_entry (\<lambda>s. None) (template_fields db_example ! 2)) = Some (JArr []) \<and>
   fd_placeholder (field_entry (\<lambda>s. None) (hd (tl (template_fields db_example)))) = []"
proof -
  have h: "template_by_id db_example 1 = Some (hd (templates db_example))"
    by (simp add: template_by_id_def db_example_def)
  have o: "fld_options (template_fields db_example ! 2) = Some (lit ''[\"cash\"]'')"
    "fld_placeholder (hd (tl (template_fields db_example))) = None"
    by (simp_all add: db_example_def)
  have k: "map fd_key (fr_fields (projr (get_template_fields (\<lambda>s. None) db_example 1))) =
     [lit ''landlord'', lit ''rent'', lit ''payment'']"
    by (simp add: get_template_fields_def template_by_id_def fields_of_def field_order_def
        field_entry_def db_example_def less_eq_prod_def)
  show ?thesis
    using h k get_template_fields_entries [OF h, of "\<lambda>s. None" "template_fields db_example ! 2"]
      get_template_fields_entries [OF h, of "\<lambda>s. None" "hd (tl (template_fields db_example))"]
    by (simp add: o lit_def)
qed

section \<open>Document generation: validation and the new row\<close>

lemma generate_found:
  assumes "gr_template_id data = Some tid" and "gr_fields data = Some fs"
    and "template_by_id d tid = Some t"
  shows "generate_document dumps now_db now_py d data =
     (case find (not_filled fs) (required_fields d tid) of
        Some req_field \<Rightarrow>
          (Inl (Failure 400 (msg_required_prefix @ req_field @ msg_required_suffix)), d)
      | None \<Rightarrow>
          (Inr \<lparr>ge_document_id = seq_filled_documents d + 1, ge_message = msg_created,
                ge_template_name = tpl_name t, ge_generated_at = now_py\<rparr>,
           d\<lparr>filled_documents := filled_documents d @
                 [\<lparr>doc_id = seq_filled_documents d + 1, doc_template_id = tid,
                   doc_user_id = None, doc_document_data = dumps (JObj fs),
                   doc_created_at = now_db, doc_status = status_generated\<rparr>],
              seq_filled_documents := seq_filled_documents d + 1\<rparr>))"
  using assms by (simp add: generate_document_def Let_def split: option.split)

lemma not_filled_iff:
  "not_filled fs k \<longleftrightarrow> map_of fs k = None \<or> (\<exists>v. map_of fs k = Some v \<and> \<not> truthy v)"
  by (simp add: not_filled_def split: option.split)

text \<open>
  C2. The template exists and some required field of it is absent from the submission or
  has a falsy value there. Then the answer is 400 with the message that names the first
  such field, and the database is returned unchanged, so no document row is created. The
  handler reads the field rows without \<open>ORDER BY\<close>, in rowid order; where the rows of the
  template are stored in field order (\<open>order_index\<close>, then \<open>id\<close>), as the seed stores them,
  the field named is the first in field order.
\<close>

theorem generate_document_missing_required:
  assumes "gr_template_id data = Some tid" and "gr_fields data = Some fs"
    and "template_by_id d tid = Some t"
    and "sorted (map field_order (fields_of d tid))"
    and "\<exists>f\<in>set (fields_of d tid). fld_is_required f \<noteq> 0 \<and> not_filled fs (fld_field_key f)"
  shows
    "\<exists>k. find (not_filled fs)
            (map fld_field_key
               (filter (\<lambda>f. fld_is_required f \<noteq> 0) (sort_key field_order (fields_of d tid)))) =
            Some k \<and>
          (map_of fs k = None \<or> (\<exists>v. map_of fs k = Some v \<and> \<not> truthy v)) \<and>
          generate_document dumps now_db now_py d data =
            (Inl (Failure 400 (msg_required_prefix @ k @ msg_required_suffix)), d)"
proof -
  have same: "sort_key field_order (fields_of d tid) = fields_of d tid"
    using assms(4) by (rule sort_key_id_if_sorted)
  from assms(5) obtain f where f: "f \<in> set (fields_of d tid)" "fld_is_required f \<noteq> 0"
    "not_filled fs (fld_field_key f)"
    by blast
  then have "fld_field_key f \<in> set (required_fields d tid)"
    by (auto simp: required_fields_def)
  with f(3) have "find (not_filled fs) (required_fields d tid) \<noteq> None"
    by (auto simp: find_None_iff)
  then obtain k where k: "find (not_filled fs) (required_fields d tid) = Some k"
    by blast
  then have nf: "not_filled fs k"
    by (auto simp: find_Some_iff)
  have "generate_document dumps now_db now_py d data =
          (Inl (Failure 400 (msg_required_prefix @ k @ msg_required_suffix)), d)"
    by (simp add: generate_found [OF assms(1-3)] k)
  moreover have "find (not_filled fs)
            (map fld_field_key
               (filter (\<lambda>f. fld_is_required f \<noteq> 0) (sort_key field_order (fields_of d tid)))) =
            Some k"
    using k by (simp add: same required_fields_def)
  ultimately show ?thesis
    using nf by (auto simp: not_filled_iff)
qed

lemma example_template_1: "template_by_id db_example 1 = Some (hd (templates db_example))"
  by (simp add: template_by_id_def db_example_def)

lemma example_fields_1: "fields_of db_example 1 = template_fields db_example"
  by (simp add: fields_of_def db_example_def)

theorem generate_document_missing_required_witness:
  "gr_template_id request_incomplete = Some 1 \<and>
   gr_fields request_incomplete =
     Some [(lit ''landlord'', JStr []), (lit ''payment'', JStr (lit ''cash''))] \<and>
   template_by_id db_example 1 = Some (hd (templates db_example)) \<and>
   sorted (map field_order (fields_of db_example 1)) \<and>
   list_ex (\<lambda>f. fld_is_required f \<noteq> 0 \<and>
                not_filled [(lit ''landlord'', JStr []), (lit ''payment'', JStr (lit ''cash''))]
                  (fld_field_key f))
     (fields_of db_example 1) \<and>
   generate_document (\<lambda>j. lit ''{}'') [] [] db_example request_incomplete =
     (Inl (Failure 400 (msg_required_prefix @ lit ''landlord'' @ msg_required_suffix)), db_example)"
proof -
  let ?fs = "[(lit ''landlord'', JStr []), (lit ''payment'', JStr (lit ''cash''))]"
  have a: "gr_template_id request_incomplete = Some 1" "gr_fields request_incomplete = Some ?fs"
    by (simp_all add: request_incomplete_def)
  have s: "sorted (map field_order (fields_of db_example 1))"
    by (simp add: example_fields_1) (simp add: db_example_def field_order_def less_eq_prod_def)
  have e: "list_ex (\<lambda>f. fld_is_required f \<noteq> 0 \<and> not_filled ?fs (fld_field_key f))
             (fields_of db_example 1)"
    by (simp add: example_fields_1) (simp add: db_example_def not_filled_def lit_def)
  then have e': "\<exists>f\<in>set (fields_of db_example 1).
                   fld_is_required f \<noteq> 0 \<and> not_filled ?fs (fld_field_key f)"
    by (simp add: list_ex_iff)
  have first: "find (not_filled ?fs)
            (map fld_field_key
               (filter (\<lambda>f. fld_is_required f \<noteq> 0)
                  (sort_key field_order (fields_of db_example 1)))) = Some (lit ''landlord'')"
    by (simp add: example_fields_1)
       (simp add: db_example_def not_filled_def lit_def field_order_def less_eq_prod_def)
  have "generate_document (\<lambda>j. lit ''{}'') [] [] db_example request_incomplete =
     (Inl (Failure 400 (msg_required_prefix @ lit ''landlord'' @ msg_required_suffix)), db_example)"
    using generate_document_missing_required
        [OF a example_template_1 s e', of "\<lambda>j. lit ''{}''" "[]" "[]"] first
    by auto
  then show ?thesis
    using a example_template_1 s e by simp
qed

text \<open>
  C3. The template exists and every required field of it has a truthy value in the
  submission. Then exactly one row is appended to \<open>filled_documents\<close>, with a new id, the
  template's id, the status \<open>generated\<close> and the serialized submission as its data; nothing
  else changes, and the response carries that id, the template's name and the generation
  timestamp.
\<close>

theorem generate_document_creates_row:
  assumes "gr_template_id data = Some tid" and "gr_fields data = Some fs"
    and "template_by_id d tid = Some t"
    and "\<forall>f\<in>set (fields_of d tid).
           fld_is_required f \<noteq> 0 \<longrightarrow> (\<exists>v. map_of fs (fld_field_key f) = Some v \<and> truthy v)"
  shows
    "generate_document dumps now_db now_py d data =
       (Inr \<lparr>ge_document_id = seq_filled_documents d + 1, ge_message = msg_created,
             ge_template_name = tpl_name t, ge_generated_at = now_py\<rparr>,
        d\<lparr>filled_documents := filled_documents d @
              [\<lparr>doc_id = seq_filled_documents d + 1, doc_template_id = tid,
                doc_user_id = None, doc_document_data = dumps (JObj fs),
                doc_created_at = now_db, doc_status = lit ''generated''\<rparr>],
           seq_filled_documents := seq_filled_documents d + 1\<rparr>)"
proof -
  have "\<not> not_filled fs k" if "k \<in> set (required_fields d tid)" for k
    using that assms(4) by (auto simp: required_fields_def not_filled_def)
  then have "find (not_filled fs) (required_fields d tid) = None"
    by (auto simp: find_None_iff)
  then show ?thesis
    by (simp add: generate_found [OF assms(1-3)] status_generated_def)
qed

theorem generate_document_creates_row_witness:
  "gr_template_id request_complete = Some 1 \<and>
   gr_fields request_complete =
     Some [(lit ''landlord'', JStr (lit ''Ann'')), (lit ''rent'', JInt 1500)] \<and>
   template_by_id db_example 1 = Some (hd (templates db_example)) \<and>
   list_all (\<lambda>f. fld_is_required f = 0 \<or>
        (\<exists>v. map_of [(lit ''landlord'', JStr (lit ''Ann'')), (lit ''rent'', JInt 1500)]
                (fld_field_key f) = Some v \<and> truthy v))
     (fields_of db_example 1) \<and>
   map doc_id (filled_documents
        (snd (generate_document (\<lambda>j. lit ''{}'') [] [] db_example request_complete))) =
     [1, 2, 3, 4] \<and>
   doc_status (last (filled_documents
        (snd (generate_document (\<lambda>j. lit ''{}'') [] [] db_example request_complete)))) =
     lit ''generated''"
proof -
  let ?fs = "[(lit ''landlord'', JStr (lit ''Ann'')), (lit ''rent'', JInt 1500)]"
  have a: "gr_template_id request_complete = Some 1" "gr_fields request_complete = Some ?fs"
    by (simp_all add: request_complete_def)
  have r: "list_all (\<lambda>f. fld_is_required f = 0 \<or>
        (\<exists>v. map_of ?fs (fld_field_key f) = Some v \<and> truthy v)) (fields_of db_example 1)"
    by (simp add: example_fields_1) (simp add: db_example_def lit_def)
  then have r': "\<forall>f\<in>set (fields_of db_example 1).
           fld_is_required f \<noteq> 0 \<longrightarrow> (\<exists>v. map_of ?fs (fld_field_key f) = Some v \<and> truthy v)"
    unfolding list_all_iff by blast
  have ids: "map doc_id (filled_documents db_example) = [1, 2, 3]"
    "seq_filled_documents db_example = 3"
    by (simp_all add: db_example_def)
  show ?thesis
    using a example_template_1 r
      generate_document_creates_row [OF a example_template_1 r', of "\<lambda>j. lit ''{}''" "[]" "[]"]
    by (simp add: ids)
qed

section \<open>Document listing: the most recent rows\<close>








section \<open>Seeding: the catalog after the operation\<close>

subsection \<open>The loops\<close>

lemma insert_categories_names:
  "map (\<lambda>c. (cat_name c, cat_description c)) (categories (snd (insert_categories now cats ids d))) =
     map (\<lambda>c. (cat_name c, cat_description c)) (categories d) @ map (\<lambda>(n, x). (n, Some x)) cats"
proof (induction cats arbitrary: ids d)
  case Nil
  then show ?case by simp
next
  case (Cons c cats)
  obtain name desc where c: "c = (name, desc)" by (cases c)
  show ?case by (simp add: c Let_def Cons.IH)
qed

lemma insert_categories_templates:
  "templates (snd (insert_categories now cats ids d)) = templates d"
proof (induction cats arbitrary: ids d)
  case Nil
  then show ?case by simp
next
  case (Cons c cats)
  obtain name desc where c: "c = (name, desc)" by (cases c)
  show ?case by (simp add: c Let_def Cons.IH)
qed

lemma insert_categories_fields:
  "template_fields (snd (insert_categories now cats ids d)) = template_fields d"
proof (induction cats arbitrary: ids d)
  case Nil
  then show ?case by simp
next
  case (Cons c cats)
  obtain name desc where c: "c = (name, desc)" by (cases c)
  show ?case by (simp add: c Let_def Cons.IH)
qed

lemma insert_categories_documents:
  "filled_documents (snd (insert_categories now cats ids d)) = filled_documents d"
proof (induction cats arbitrary: ids d)
  case Nil
  then show ?case by simp
next
  case (Cons c cats)
  obtain name desc where c: "c = (name, desc)" by (cases c)
  show ?case by (simp add: c Let_def Cons.IH)
qed

lemma insert_categories_dom:
  "dom (fst (insert_categories now cats ids d)) = dom ids \<union> set (map fst cats)"
proof (induction cats arbitrary: ids d)
  case Nil
  then show ?case by simp
next
  case (Cons c cats)
  obtain name desc where c: "c = (name, desc)" by (cases c)
  have a: "dom (ids(name \<mapsto> seq_categories d + 1)) = insert name (dom ids)"
    by simp
  have step: "insert_categories now (c # cats) ids d =
     insert_categories now cats (ids(name \<mapsto> seq_categories d + 1))
       (d\<lparr>categories := categories d @
                 [\<lparr>cat_id = seq_categories d + 1, cat_name = name, cat_description = Some desc,
                   cat_created_at = now\<rparr>],
              seq_categories := seq_categories d + 1\<rparr>)"
    by (simp add: c Let_def)
  show ?case
    unfolding step Cons.IH a by (simp add: c)
qed

lemma insert_template_Some_iff:
  "insert_template now ids t d \<noteq> None \<longleftrightarrow>
     sd_category t \<in> dom ids \<and> sd_type t \<in> set doc_types"
  by (auto simp: insert_template_def Let_def split: option.splits)

lemma insert_template_SomeD:
  assumes "insert_template now ids t d = Some (tid, d')"
  shows "tid = seq_templates d + 1"
    and "\<exists>row. templates d' = templates d @ [row] \<and> tpl_id row = tid \<and> tpl_name row = sd_name t"
    and "categories d' = categories d"
    and "template_fields d' = template_fields d"
    and "filled_documents d' = filled_documents d"
  using assms by (auto simp: insert_template_def Let_def split: option.splits if_splits)

lemma insert_fields_templates:
  "templates (insert_fields dumps tid i fs d) = templates d"
  by (induction fs arbitrary: i d) simp_all

lemma insert_fields_categories:
  "categories (insert_fields dumps tid i fs d) = categories d"
  by (induction fs arbitrary: i d) simp_all

lemma insert_fields_documents:
  "filled_documents (insert_fields dumps tid i fs d) = filled_documents d"
  by (induction fs arbitrary: i d) simp_all

lemma insert_fields_keeps:
  "set (template_fields d) \<subseteq> set (template_fields (insert_fields dumps tid i fs d))"
proof (induction fs arbitrary: i d)
  case Nil
  then show ?case by simp
next
  case (Cons f fs)
  show ?case
  proof (cases "sf_type f \<in> set field_types")
    case True
    let ?d = "d\<lparr>template_fields := template_fields d @
                [\<lparr>fld_id = seq_template_fields d + 1, fld_template_id = tid,
                  fld_field_key = sf_key f, fld_field_label = sf_label f,
                  fld_field_type = sf_type f,
                  fld_is_required =
                    (case sf_required f of None \<Rightarrow> 0 | Some b \<Rightarrow> if b then 1 else 0),
                  fld_min_value = sf_min f, fld_max_value = sf_max f,
                  fld_format = None, fld_placeholder = sf_placeholder f,
                  fld_options = map_option (\<lambda>opts. dumps (JArr (map JStr opts))) (sf_options f),
                  fld_order_index = i\<rparr>],
             seq_template_fields := seq_template_fields d + 1\<rparr>"
    have "set (template_fields d) \<subseteq> set (template_fields ?d)" by auto
    also have "\<dots> \<subseteq> set (template_fields (insert_fields dumps tid (i + 1) fs ?d))"
      by (rule Cons.IH)
    finally show ?thesis using True by simp
  next
    case False
    then show ?thesis by simp
  qed
qed

lemma insert_fields_length:
  "length (template_fields (insert_fields dumps tid i fs d)) =
     length (template_fields d) + length (takeWhile (\<lambda>f. sf_type f \<in> set field_types) fs)"
  by (induction fs arbitrary: i d) simp_all

lemma insert_fields_template_ids:
  "map fld_template_id (template_fields (insert_fields dumps tid i fs d)) =
     map fld_template_id (template_fields d) @
       replicate (length (takeWhile (\<lambda>f. sf_type f \<in> set field_types) fs)) tid"
  by (induction fs arbitrary: i d) (simp_all add: replicate_app_Cons_same)


text \<open>Whether the INSERT of a template succeeds depends on the data and the category ids only.\<close>

lemma insert_templates_added:
  "fst (insert_templates dumps now ids tdata added d) =
     added + length (filter (\<lambda>t. sd_category t \<in> dom ids \<and> sd_type t \<in> set doc_types) tdata)"
proof (induction tdata arbitrary: added d)
  case Nil
  then show ?case by simp
next
  case (Cons t tdata)
  show ?case
  proof (cases "insert_template now ids t d")
    case None
    then have "\<not> (sd_category t \<in> dom ids \<and> sd_type t \<in> set doc_types)"
      using insert_template_Some_iff [of now ids t d] by simp
    with None show ?thesis by (simp add: Cons.IH)
  next
    case (Some r)
    then have "sd_category t \<in> dom ids \<and> sd_type t \<in> set doc_types"
      using insert_template_Some_iff [of now ids t d] by simp
    with Some show ?thesis by (simp add: Cons.IH split: prod.split)
  qed
qed

lemma insert_templates_names:
  "map tpl_name (templates (snd (insert_templates dumps now ids tdata added d))) =
     map tpl_name (templates d) @
       map sd_name (filter (\<lambda>t. sd_category t \<in> dom ids \<and> sd_type t \<in> set doc_types) tdata)"
proof (induction tdata arbitrary: added d)
  case Nil
  then show ?case by simp
next
  case (Cons t tdata)
  show ?case
  proof (cases "insert_template now ids t d")
    case None
    then have "\<not> (sd_category t \<in> dom ids \<and> sd_type t \<in> set doc_types)"
      using insert_template_Some_iff [of now ids t d] by simp
    with None show ?thesis by (simp add: Cons.IH)
  next
    case (Some r)
    obtain tid d1 where r: "r = (tid, d1)" by (cases r)
    have ok: "sd_category t \<in> dom ids \<and> sd_type t \<in> set doc_types"
      using Some insert_template_Some_iff [of now ids t d] by simp
    from insert_template_SomeD(2) [OF Some [unfolded r]]
    have "map tpl_name (templates d1) = map tpl_name (templates d) @ [sd_name t]"
      by auto
    then show ?thesis
      using ok by (simp add: Some r Cons.IH insert_fields_templates)
  qed
qed

lemma insert_templates_categories:
  "categories (snd (insert_templates dumps now ids tdata added d)) = categories d"
proof (induction tdata arbitrary: added d)
  case Nil
  then show ?case by simp
next
  case (Cons t tdata)
  show ?case
  proof (cases "insert_template now ids t d")
    case None
    then show ?thesis by (simp add: Cons.IH)
  next
    case (Some r)
    obtain tid d1 where r: "r = (tid, d1)" by (cases r)
    show ?thesis
      using insert_template_SomeD(3) [OF Some [unfolded r]]
      by (simp add: Some r Cons.IH insert_fields_categories)
  qed
qed

lemma insert_templates_documents:
  "filled_documents (snd (insert_templates dumps now ids tdata added d)) = filled_documents d"
proof (induction tdata arbitrary: added d)
  case Nil
  then show ?case by simp
next
  case (Cons t tdata)
  show ?case
  proof (cases "insert_template now ids t d")
    case None
    then show ?thesis by (simp add: Cons.IH)
  next
    case (Some r)
    obtain tid d1 where r: "r = (tid, d1)" by (cases r)
    show ?thesis
      using insert_template_SomeD(5) [OF Some [unfolded r]]
      by (simp add: Some r Cons.IH insert_fields_documents)
  qed
qed

lemma insert_templates_keeps:
  "set (template_fields d) \<subseteq>
     set (template_fields (snd (insert_templates dumps now ids tdata added d)))"
proof (induction tdata arbitrary: added d)
  case Nil
  then show ?case by simp
next
  case (Cons t tdata)
  show ?case
  proof (cases "insert_template now ids t d")
    case None
    then show ?thesis using Cons.IH by simp
  next
    case (Some r)
    obtain tid d1 where r: "r = (tid, d1)" by (cases r)
    let ?d2 = "insert_fields dumps tid 0 (sd_fields t) d1"
    have "set (template_fields d) = set (template_fields d1)"
      using insert_template_SomeD(4) [OF Some [unfolded r]] by simp
    also have "\<dots> \<subseteq> set (template_fields ?d2)"
      by (rule insert_fields_keeps)
    also have "\<dots> \<subseteq> set (template_fields
        (snd (insert_templates dumps now ids tdata (added + 1) ?d2)))"
      by (rule Cons.IH)
    finally show ?thesis by (simp add: Some r)
  qed
qed

lemma insert_templates_fields_length:
  "length (template_fields (snd (insert_templates dumps now ids tdata added d))) =
     length (template_fields d) +
       sum_list (map (\<lambda>t. length (accepted_fields t))
         (filter (\<lambda>t. sd_category t \<in> dom ids \<and> sd_type t \<in> set doc_types) tdata))"
proof (induction tdata arbitrary: added d)
  case Nil
  then show ?case by simp
next
  case (Cons t tdata)
  show ?case
  proof (cases "insert_template now ids t d")
    case None
    then have "\<not> (sd_category t \<in> dom ids \<and> sd_type t \<in> set doc_types)"
      using insert_template_Some_iff [of now ids t d] by simp
    with None show ?thesis by (auto simp: Cons.IH)
  next
    case (Some r)
    obtain tid d1 where r: "r = (tid, d1)" by (cases r)
    have ok: "sd_category t \<in> dom ids \<and> sd_type t \<in> set doc_types"
      using Some insert_template_Some_iff [of now ids t d] by simp
    have "template_fields d1 = template_fields d"
      using insert_template_SomeD(4) [OF Some [unfolded r]] .
    then show ?thesis
      using ok by (simp add: Some r Cons.IH insert_fields_length accepted_fields_def)
  qed
qed

lemma insert_templates_have_fields:
  assumes "\<forall>t\<in>set tdata. accepted_fields t \<noteq> []"
  shows "\<forall>row\<in>set (templates (snd (insert_templates dumps now ids tdata added d))).
           row \<in> set (templates d) \<or>
           (\<exists>f\<in>set (template_fields (snd (insert_templates dumps now ids tdata added d))).
              fld_template_id f = tpl_id row)"
  using assms
proof (induction tdata arbitrary: added d)
  case Nil
  then show ?case by simp
next
  case (Cons t tdata)
  have rest: "\<forall>t\<in>set tdata. accepted_fields t \<noteq> []" and this_one: "accepted_fields t \<noteq> []"
    using Cons.prems by simp_all
  show ?case
  proof (cases "insert_template now ids t d")
    case None
    then show ?thesis using Cons.IH [OF rest, of added d] by simp
  next
    case (Some r)
    obtain tid d1 where r: "r = (tid, d1)" by (cases r)
    let ?d2 = "insert_fields dumps tid 0 (sd_fields t) d1"
    let ?d3 = "snd (insert_templates dumps now ids tdata (added + 1) ?d2)"
    have res: "snd (insert_templates dumps now ids (t # tdata) added d) = ?d3"
      by (simp add: Some r)
    from insert_template_SomeD(2) [OF Some [unfolded r]]
    obtain new where new: "templates d1 = templates d @ [new]" "tpl_id new = tid"
      by blast
    have "tid \<in> set (map fld_template_id (template_fields ?d2))"
      using this_one by (simp add: insert_fields_template_ids accepted_fields_def)
    then obtain f where f: "f \<in> set (template_fields ?d2)" "fld_template_id f = tid"
      by auto
    have f3: "f \<in> set (template_fields ?d3)"
      using f(1) insert_templates_keeps [of ?d2 dumps now ids tdata "added + 1"] by blast
    show ?thesis
      unfolding res
    proof
      fix row
      assume "row \<in> set (templates ?d3)"
      then have "row \<in> set (templates ?d2) \<or>
                 (\<exists>f\<in>set (template_fields ?d3). fld_template_id f = tpl_id row)"
        using Cons.IH [OF rest, of "added + 1" ?d2] by blast
      moreover have "row \<in> set (templates d) \<or> row = new" if "row \<in> set (templates ?d2)"
        using that new(1) by (simp add: insert_fields_templates) blast
      moreover have "\<exists>f\<in>set (template_fields ?d3). fld_template_id f = tpl_id row"
        if "row = new"
        using that f3 f(2) new(2) by (intro bexI [of _ f]) simp_all
      ultimately show "row \<in> set (templates d) \<or>
                 (\<exists>f\<in>set (template_fields ?d3). fld_template_id f = tpl_id row)"
        by blast
    qed
  qed
qed

subsection \<open>The whole operation\<close>

lemma clear_catalog_tables:
  "categories (clear_catalog d) = []"
  "templates (clear_catalog d) = []"
  "template_fields (clear_catalog d) = []"
  "filled_documents (clear_catalog d) = filled_documents d"
  by (simp_all add: clear_catalog_def)

lemma seed_with_split:
  "seed_with dumps now cats tdata d =
     (\<lparr>sr_templates_added =
          fst (insert_templates dumps now
                 (fst (insert_categories now cats Map.empty (clear_catalog d))) tdata 0
                 (snd (insert_categories now cats Map.empty (clear_catalog d)))),
        sr_templates_list =
          map sd_name
            (take (fst (insert_templates dumps now
                      (fst (insert_categories now cats Map.empty (clear_catalog d))) tdata 0
                      (snd (insert_categories now cats Map.empty (clear_catalog d))))) tdata)\<rparr>,
      snd (insert_templates dumps now
             (fst (insert_categories now cats Map.empty (clear_catalog d))) tdata 0
             (snd (insert_categories now cats Map.empty (clear_catalog d)))))"
  by (simp add: seed_with_def split: prod.split)

lemma seeded_ids_dom:
  "(\<lambda>t. sd_category t \<in> dom (fst (insert_categories now cats Map.empty d)) \<and>
         sd_type t \<in> set doc_types) = insertable cats"
  by (simp add: insert_categories_dom insertable_def [abs_def])

lemma seed_with_added:
  "sr_templates_added (fst (seed_with dumps now cats tdata d)) =
     length (filter (insertable cats) tdata)"
  by (simp add: seed_with_split insert_templates_added seeded_ids_dom)

lemma seed_with_templates:
  "map tpl_name (templates (snd (seed_with dumps now cats tdata d))) =
     map sd_name (filter (insertable cats) tdata)"
  by (simp add: seed_with_split insert_templates_names seeded_ids_dom
      insert_categories_templates clear_catalog_tables)

lemma seed_with_categories:
  "map (\<lambda>c. (cat_name c, cat_description c)) (categories (snd (seed_with dumps now cats tdata d))) =
     map (\<lambda>(n, x). (n, Some x)) cats"
  by (simp add: seed_with_split insert_templates_categories insert_categories_names
      clear_catalog_tables)

lemma seed_with_documents:
  "filled_documents (snd (seed_with dumps now cats tdata d)) = filled_documents d"
  by (simp add: seed_with_split insert_templates_documents insert_categories_documents
      clear_catalog_tables)

lemma seed_with_fields_length:
  "length (template_fields (snd (seed_with dumps now cats tdata d))) =
     sum_list (map (\<lambda>t. length (accepted_fields t)) (filter (insertable cats) tdata))"
  by (simp add: seed_with_split insert_templates_fields_length seeded_ids_dom
      insert_categories_fields clear_catalog_tables)

lemma seed_with_have_fields:
  assumes "\<forall>t\<in>set tdata. accepted_fields t \<noteq> []"
  shows "list_all
           (\<lambda>row. list_ex (\<lambda>f. fld_template_id f = tpl_id row)
                     (template_fields (snd (seed_with dumps now cats tdata d))))
           (templates (snd (seed_with dumps now cats tdata d)))"
proof -
  let ?ids = "fst (insert_categories now cats Map.empty (clear_catalog d))"
  let ?d1 = "snd (insert_categories now cats Map.empty (clear_catalog d))"
  have empty: "templates ?d1 = []"
    by (simp add: insert_categories_templates clear_catalog_tables)
  have "\<forall>row\<in>set (templates (snd (insert_templates dumps now ?ids tdata 0 ?d1))).
           row \<in> set (templates ?d1) \<or>
           (\<exists>f\<in>set (template_fields (snd (insert_templates dumps now ?ids tdata 0 ?d1))).
              fld_template_id f = tpl_id row)"
    by (rule insert_templates_have_fields [OF assms])
  then show ?thesis
    by (simp add: seed_with_split empty list_all_iff list_ex_iff)
qed

subsection \<open>Facts of the fixed catalog\<close>

lemmas template_data_defs =
  template_data_1_def template_data_2_def template_data_3_def template_data_4_def
  template_data_5_def template_data_6_def template_data_7_def template_data_8_def
  template_data_9_def template_data_10_def

lemma catalog_sizes: "length categories_seed = 8" "length templates_data = 10"
  by (simp_all add: categories_seed_def templates_data_def)

lemma catalog_insertable: "filter (insertable categories_seed) templates_data = templates_data"
  by (simp add: templates_data_def template_data_defs insertable_def categories_seed_def
      doc_types_def)

lemma catalog_accepted:
  "map (\<lambda>t. length (accepted_fields t)) templates_data =
     [12, 12, 11, 10, 11, 12, 10, 11, 13, 12]"
  by (simp add: templates_data_def template_data_defs accepted_fields_def field_types_def
      lit_def)

lemma catalog_fields_nonempty: "\<forall>t\<in>set templates_data. accepted_fields t \<noteq> []"
proof
  fix t
  assume "t \<in> set templates_data"
  then have "length (accepted_fields t) \<in> set (map (\<lambda>t. length (accepted_fields t)) templates_data)"
    by simp
  then have "length (accepted_fields t) \<noteq> 0"
    unfolding catalog_accepted by auto
  then show "accepted_fields t \<noteq> []" by simp
qed

lemma seed_database_state:
  "length (categories (snd (seed_database dumps now d))) = 8"
  "map (\<lambda>c. (cat_name c, cat_description c)) (categories (snd (seed_database dumps now d))) =
     map (\<lambda>(n, x). (n, Some x)) categories_seed"
  "length (templates (snd (seed_database dumps now d))) = 10"
  "map tpl_name (templates (snd (seed_database dumps now d))) = map sd_name templates_data"
  "length (template_fields (snd (seed_database dumps now d))) = 114"
  "sr_templates_added (fst (seed_database dumps now d)) = 10"
  "filled_documents (snd (seed_database dumps now d)) = filled_documents d"
proof -
  show c: "map (\<lambda>c. (cat_name c, cat_description c))
             (categories (snd (seed_database dumps now d))) =
           map (\<lambda>(n, x). (n, Some x)) categories_seed"
    by (simp add: seed_database_def seed_with_categories)
  have "length (map (\<lambda>c. (cat_name c, cat_description c))
                  (categories (snd (seed_database dumps now d)))) = 8"
    unfolding c by (simp add: catalog_sizes)
  then show "length (categories (snd (seed_database dumps now d))) = 8"
    by simp
  show t: "map tpl_name (templates (snd (seed_database dumps now d))) = map sd_name templates_data"
    by (simp add: seed_database_def seed_with_templates catalog_insertable)
  have "length (map tpl_name (templates (snd (seed_database dumps now d)))) = 10"
    unfolding t by (simp add: catalog_sizes)
  then show "length (templates (snd (seed_database dumps now d))) = 10"
    by simp
  show "length (template_fields (snd (seed_database dumps now d))) = 114"
    by (simp add: seed_database_def seed_with_fields_length catalog_insertable catalog_accepted)
  show "sr_templates_added (fst (seed_database dumps now d)) = 10"
    by (simp add: seed_database_def seed_with_added catalog_insertable catalog_sizes)
  show "filled_documents (snd (seed_database dumps now d)) = filled_documents d"
    by (simp add: seed_database_def seed_with_documents)
qed

lemma seed_database_have_fields:
  "list_all
     (\<lambda>row. list_ex (\<lambda>f. fld_template_id f = tpl_id row)
               (template_fields (snd (seed_database dumps now d))))
     (templates (snd (seed_database dumps now d)))"
  unfolding seed_database_def by (rule seed_with_have_fields [OF catalog_fields_nonempty])

text \<open>
  C6. Whatever the catalog was, after the seed operation the categories are exactly the 8
  seeded ones and the templates exactly the 10 of the fixed catalog, the field rows are
  the 114 of those templates, so the rows that were there before are gone, and every
  template has a field row; the filled documents are untouched. The response reports 10.
  Seeding again, at any later time, leaves 8 categories and 10 templates. Over any seed
  data, a template whose INSERT fails (its category is not among the seeded names, or its
  type fails the CHECK) is passed over and the others are inserted, and the response
  reports the number inserted.
\<close>

theorem seed_database_catalog:
  "length (categories (snd (seed_database dumps now d))) = 8 \<and>
   map (\<lambda>c. (cat_name c, cat_description c)) (categories (snd (seed_database dumps now d))) =
     map (\<lambda>(n, x). (n, Some x)) categories_seed \<and>
   length (templates (snd (seed_database dumps now d))) = 10 \<and>
   map tpl_name (templates (snd (seed_database dumps now d))) = map sd_name templates_data \<and>
   length (template_fields (snd (seed_database dumps now d))) = 114 \<and>
   list_all
     (\<lambda>row. list_ex (\<lambda>f. fld_template_id f = tpl_id row)
               (template_fields (snd (seed_database dumps now d))))
     (templates (snd (seed_database dumps now d))) \<and>
   sr_templates_added (fst (seed_database dumps now d)) = 10 \<and>
   filled_documents (snd (seed_database dumps now d)) = filled_documents d \<and>
   length (categories (snd (seed_database dumps later (snd (seed_database dumps now d))))) = 8 \<and>
   length (templates (snd (seed_database dumps later (snd (seed_database dumps now d))))) = 10 \<and>
   sr_templates_added (fst (seed_with dumps now cats tdata d)) =
     length (filter (insertable cats) tdata) \<and>
   map tpl_name (templates (snd (seed_with dumps now cats tdata d))) =
     map sd_name (filter (insertable cats) tdata)"
  using seed_database_state [of dumps now d] seed_database_have_fields [of dumps now d]
    seed_database_state(1,3) [of dumps later "snd (seed_database dumps now d)"]
    seed_with_added [of dumps now cats tdata d] seed_with_templates [of dumps now cats tdata d]
  by (simp only: simp_thms)

text \<open>Seed data for the example: a template with an unknown category before a good one.\<close>

lemma example_seed_data:
  "filter (insertable categories_seed)
     [template_data_1\<lparr>sd_category := lit ''Nowhere''\<rparr>, template_data_7] = [template_data_7]"
  by (simp add: template_data_defs insertable_def categories_seed_def doc_types_def lit_def)

theorem seed_database_catalog_witness:
  "length (categories db_example) = 2 \<and>
   length (categories (snd (seed_database (\<lambda>j. []) [] db_example))) = 8 \<and>
   length (templates (snd (seed_database (\<lambda>j. []) [] db_example))) = 10 \<and>
   sr_templates_added (fst (seed_database (\<lambda>j. []) [] db_example)) = 10 \<and>
   sr_templates_added
     (fst (seed_with (\<lambda>j. []) [] categories_seed
            [template_data_1\<lparr>sd_category := lit ''Nowhere''\<rparr>, template_data_7] db_example)) = 1 \<and>
   map tpl_name
     (templates
        (snd (seed_with (\<lambda>j. []) [] categories_seed
               [template_data_1\<lparr>sd_category := lit ''Nowhere''\<rparr>, template_data_7] db_example))) =
     [sd_name template_data_7]"
proof -
  have "length (categories db_example) = 2"
    by (simp add: db_example_def)
  then show ?thesis
    using seed_database_catalog
        [of "\<lambda>j. []" "[]" db_example "[]" categories_seed
          "[template_data_1\<lparr>sd_category := lit ''Nowhere''\<rparr>, template_data_7]",
          unfolded example_seed_data]
    by simp
qed

subsection \<open>The seed stores the fields of a template in field order\<close>

text \<open>
  The validation of \<open>generate_document\<close> reads the field rows in rowid order. The seed is
  the only writer of \<open>template_fields\<close>, and it stores the rows of each template in the
  order of \<open>order_index\<close> and \<open>id\<close>; the other handlers leave the table as it is.
\<close>

lemma insert_fields_seq_templates:
  "seq_templates (insert_fields dumps tid i fs d) = seq_templates d"
  by (induction fs arbitrary: i d) simp_all

lemma insert_fields_order:
  assumes "sorted_wrt field_before (template_fields d)"
    and "\<forall>x\<in>set (template_fields d). fld_id x \<le> seq_template_fields d"
    and "\<forall>x\<in>set (template_fields d). fld_template_id x = tid \<longrightarrow> fld_order_index x < i"
  shows "sorted_wrt field_before (template_fields (insert_fields dumps tid i fs d)) \<and>
         (\<forall>x\<in>set (template_fields (insert_fields dumps tid i fs d)).
            fld_id x \<le> seq_template_fields (insert_fields dumps tid i fs d))"
  using assms
proof (induction fs arbitrary: i d)
  case Nil
  then show ?case by simp
next
  case (Cons f fs)
  show ?case
  proof (cases "sf_type f \<in> set field_types")
    case False
    then show ?thesis using Cons.prems by simp
  next
    case True
    let ?row = "\<lparr>fld_id = seq_template_fields d + 1, fld_template_id = tid,
                  fld_field_key = sf_key f, fld_field_label = sf_label f,
                  fld_field_type = sf_type f,
                  fld_is_required =
                    (case sf_required f of None \<Rightarrow> 0 | Some b \<Rightarrow> if b then 1 else 0),
                  fld_min_value = sf_min f, fld_max_value = sf_max f,
                  fld_format = None, fld_placeholder = sf_placeholder f,
                  fld_options = map_option (\<lambda>opts. dumps (JArr (map JStr opts))) (sf_options f),
                  fld_order_index = i\<rparr>"
    let ?d = "d\<lparr>template_fields := template_fields d @ [?row],
               seq_template_fields := seq_template_fields d + 1\<rparr>"
    have step: "insert_fields dumps tid i (f # fs) d = insert_fields dumps tid (i + 1) fs ?d"
      using True by simp
    have before: "\<forall>x\<in>set (template_fields d). field_before x ?row"
      using Cons.prems(2,3) by (fastforce simp: field_before_def)
    have a: "sorted_wrt field_before (template_fields ?d)"
      using Cons.prems(1) before by (simp add: sorted_wrt_append)
    have b: "\<forall>x\<in>set (template_fields ?d). fld_id x \<le> seq_template_fields ?d"
      using Cons.prems(2) by fastforce
    have c: "\<forall>x\<in>set (template_fields ?d). fld_template_id x = tid \<longrightarrow> fld_order_index x < i + 1"
    proof (intro ballI impI)
      fix x
      assume "x \<in> set (template_fields ?d)" and x: "fld_template_id x = tid"
      then consider "x \<in> set (template_fields d)" | "x = ?row"
        by auto
      then show "fld_order_index x < i + 1"
      proof cases
        case 1
        then have "fld_order_index x < i" using Cons.prems(3) x by blast
        then show ?thesis by simp
      next
        case 2
        then show ?thesis by simp
      qed
    qed
    show ?thesis
      unfolding step by (rule Cons.IH [OF a b c])
  qed
qed

lemma insert_fields_template_bound:
  assumes "\<forall>x\<in>set (template_fields d). fld_template_id x \<le> b" and "tid \<le> b"
  shows "\<forall>x\<in>set (template_fields (insert_fields dumps tid i fs d)). fld_template_id x \<le> b"
proof -
  have "\<forall>y\<in>set (map fld_template_id (template_fields (insert_fields dumps tid i fs d))). y \<le> b"
    unfolding insert_fields_template_ids using assms by auto
  then show ?thesis by simp
qed

lemma insert_template_seqs:
  assumes "insert_template now ids t d = Some (tid, d')"
  shows "seq_templates d' = tid" and "seq_template_fields d' = seq_template_fields d"
  using assms by (auto simp: insert_template_def Let_def split: option.splits if_splits)

lemma insert_templates_order:
  assumes "stored_in_order d"
  shows "stored_in_order (snd (insert_templates dumps now ids tdata added d))"
  using assms
proof (induction tdata arbitrary: added d)
  case Nil
  then show ?case by simp
next
  case (Cons t tdata)
  show ?case
  proof (cases "insert_template now ids t d")
    case None
    then show ?thesis using Cons.IH [OF Cons.prems] by simp
  next
    case (Some r)
    obtain tid d1 where r: "r = (tid, d1)" by (cases r)
    note ins = Some [unfolded r]
    let ?d2 = "insert_fields dumps tid 0 (sd_fields t) d1"
    have tid: "tid = seq_templates d + 1" and same: "template_fields d1 = template_fields d"
      and seqs: "seq_templates d1 = tid" "seq_template_fields d1 = seq_template_fields d"
      using insert_template_SomeD(1,4) [OF ins] insert_template_seqs [OF ins] by simp_all
    have inv: "sorted_wrt field_before (template_fields d)"
      "\<forall>x\<in>set (template_fields d). fld_id x \<le> seq_template_fields d"
      "\<forall>x\<in>set (template_fields d). fld_template_id x \<le> seq_templates d"
      using Cons.prems by (simp_all add: stored_in_order_def list_all_iff)
    have fresh: "\<forall>x\<in>set (template_fields d1). fld_template_id x = tid \<longrightarrow> fld_order_index x < 0"
      using inv(3) tid same by fastforce
    have o: "sorted_wrt field_before (template_fields ?d2) \<and>
             (\<forall>x\<in>set (template_fields ?d2). fld_id x \<le> seq_template_fields ?d2)"
      by (rule insert_fields_order) (use inv same seqs fresh in simp_all)
    have "\<forall>x\<in>set (template_fields d1). fld_template_id x \<le> tid"
      using inv(3) tid same by fastforce
    then have b: "\<forall>x\<in>set (template_fields ?d2). fld_template_id x \<le> seq_templates ?d2"
      using insert_fields_template_bound [of d1 tid tid dumps 0 "sd_fields t"]
      by (simp add: insert_fields_seq_templates seqs)
    have "stored_in_order ?d2"
      using o b by (simp add: stored_in_order_def list_all_iff)
    then show ?thesis
      using Cons.IH [of ?d2 "added + 1"] by (simp add: Some r)
  qed
qed

lemma stored_in_order_fields:
  assumes "stored_in_order d"
  shows "sorted (map field_order (fields_of d tid))"
proof -
  have "sorted_wrt field_before (fields_of d tid)"
    using assms unfolding stored_in_order_def fields_of_def by (simp add: sorted_wrt_filter)
  moreover have "field_order x \<le> field_order y"
    if "x \<in> set (fields_of d tid)" "y \<in> set (fields_of d tid)" "field_before x y" for x y
    using that by (auto simp: fields_of_def field_before_def field_order_def less_eq_prod_def)
  ultimately have "sorted_wrt (\<lambda>x y. field_order x \<le> field_order y) (fields_of d tid)"
    by (rule sorted_wrt_mono_rel [rotated])
  then show ?thesis by (simp add: sorted_map)
qed

lemma seed_with_stored_in_order:
  "stored_in_order (snd (seed_with dumps now cats tdata d))"
proof -
  have "stored_in_order (snd (insert_categories now cats Map.empty (clear_catalog d)))"
    by (simp add: stored_in_order_def insert_categories_fields clear_catalog_tables)
  then show ?thesis
    by (simp add: seed_with_split insert_templates_order)
qed

lemma seed_database_field_order:
  "sorted (map field_order (fields_of (snd (seed_database dumps now d)) tid))"
  unfolding seed_database_def
  by (rule stored_in_order_fields [OF seed_with_stored_in_order])

lemma other_handlers_keep_fields:
  "template_fields (snd (get_template_detail d tid)) = template_fields d"
  "template_fields (snd (generate_document dumps now_db now_py d data)) = template_fields d"
  by (simp_all add: get_template_detail_def generate_document_def bump_popularity_def Let_def
      split: option.split)


end
